theory Spec2Isabelle
  imports Main
begin

section \<open>Strings, integers and regular expressions of the Python source\<close>

text \<open>
  A Python \<open>str\<close> is modelled as a \<open>string\<close>, each \<open>char\<close> standing for one code point
  below 256. Integers are Python's unbounded \<open>int\<close>. Output written with \<open>print\<close> is not
  modelled. \<open>KeyboardInterrupt\<close> and the other exceptions outside \<open>Exception\<close> are not
  modelled either.
\<close>

datatype exn = PlaywrightTimeout | PlaywrightError | ValueError | TypeError
  | AttributeError | IndexError

subsection \<open>Character classes\<close>

definition is_digit :: "char \<Rightarrow> bool" where
  \<comment> \<open>\<open>\d\<close>: the decimal digits below code point 256\<close>
  "is_digit c = (let n = (of_char c :: nat) in 48 \<le> n \<and> n \<le> 57)"

definition is_space :: "char \<Rightarrow> bool" where
  \<comment> \<open>\<open>\s\<close> and \<open>str.isspace\<close>: 9-13, 28-32, 133 and 160\<close>
  "is_space c = (let n = (of_char c :: nat) in
     (9 \<le> n \<and> n \<le> 13) \<or> (28 \<le> n \<and> n \<le> 32) \<or> n = 133 \<or> n = 160)"

definition py_lower_char :: "char \<Rightarrow> char" where
  \<comment> \<open>\<open>str.lower\<close> on one code point below 256\<close>
  "py_lower_char c = (let n = (of_char c :: nat) in
     if (65 \<le> n \<and> n \<le> 90) \<or> (192 \<le> n \<and> n \<le> 222 \<and> n \<noteq> 215)
     then char_of (n + 32) else c)"

definition py_lower :: "string \<Rightarrow> string" where
  "py_lower s = map py_lower_char s"

definition is_char :: "char \<Rightarrow> char \<Rightarrow> bool" where
  \<comment> \<open>a literal character of a pattern\<close>
  "is_char p c = (c = p)"

definition is_char_ci :: "char \<Rightarrow> char \<Rightarrow> bool" where
  \<comment> \<open>a literal character of a pattern compiled with \<open>re.IGNORECASE\<close>\<close>
  "is_char_ci p c = (py_lower_char c = py_lower_char p)"

definition is_digit_or_comma :: "char \<Rightarrow> bool" where
  \<comment> \<open>\<open>[\d,]\<close>\<close>
  "is_digit_or_comma c = (is_digit c \<or> c = CHR '','')"

subsection \<open>Substring test, strip, replace\<close>

fun starts_with :: "string \<Rightarrow> string \<Rightarrow> bool" where
  "starts_with [] s = True"
| "starts_with (p # ps) [] = False"
| "starts_with (p # ps) (c # cs) = (p = c \<and> starts_with ps cs)"

fun py_in :: "string \<Rightarrow> string \<Rightarrow> bool" where
  \<comment> \<open>\<open>sub in s\<close>\<close>
  "py_in sub [] = starts_with sub []"
| "py_in sub (c # cs) = (starts_with sub (c # cs) \<or> py_in sub cs)"

definition strip :: "string \<Rightarrow> string" where
  \<comment> \<open>\<open>s.strip()\<close>\<close>
  "strip s = rev (dropWhile is_space (rev (dropWhile is_space s)))"

definition remove_commas :: "string \<Rightarrow> string" where
  \<comment> \<open>\<open>s.replace(',', '')\<close>\<close>
  "remove_commas s = filter (\<lambda>c. c \<noteq> CHR '','') s"

subsection \<open>Integers to and from text\<close>

definition digit_val :: "char \<Rightarrow> int" where
  "digit_val c = int (of_char c) - 48"

definition py_int :: "string \<Rightarrow> exn + int" where
  \<comment> \<open>\<open>int(s)\<close> on a string of digits, which is all the source passes; the empty string
      raises \<open>ValueError\<close>. The interpreter's optional limit on the number of digits is
      not modelled.\<close>
  "py_int s = (if s \<noteq> [] \<and> list_all is_digit s
     then Inr (foldl (\<lambda>a c. 10 * a + digit_val c) 0 s) else Inl ValueError)"

function digits_of :: "int \<Rightarrow> string" where
  \<comment> \<open>the decimal digits of an integer that is not negative\<close>
  "digits_of n = (if n < 10 then [char_of (48 + n)]
     else digits_of (n div 10) @ [char_of (48 + n mod 10)])"
  by pat_completeness auto
termination
  by (relation "measure nat") auto

declare digits_of.simps [simp del]

definition py_str :: "int \<Rightarrow> string" where
  \<comment> \<open>\<open>str(n)\<close>, as in \<open>f"{n}"\<close>\<close>
  "py_str n = (if n < 0 then CHR ''-'' # digits_of (- n) else digits_of n)"

fun group3 :: "string \<Rightarrow> string" where
  \<comment> \<open>commas between groups of three, on the reversed digits\<close>
  "group3 (a # b # c # d # rest) = a # b # c # CHR '','' # group3 (d # rest)"
| "group3 s = s"

definition fmt_commas :: "int \<Rightarrow> string" where
  \<comment> \<open>\<open>f"{n:,}"\<close>\<close>
  "fmt_commas n = (if n < 0 then [CHR ''-''] else []) @ rev (group3 (rev (digits_of \<bar>n\<bar>)))"

subsection \<open>Regular expressions\<close>

text \<open>
  Every pattern of the source is a sequence of character classes, each taken once or under
  \<open>?\<close>, \<open>*\<close> or \<open>+\<close>, some of them capturing. \<open>match_here\<close> is the backtracking matcher
  of \<open>re\<close> on such a sequence: a quantified class first takes as many characters as it
  can and gives them back one at a time while the rest of the pattern fails. It returns the
  captured groups in order. \<open>re_search\<close> tries every start position from the left.
\<close>

datatype quant = One | Opt | Star | Plus

datatype item = Item quant bool "char \<Rightarrow> bool"

definition q_min :: "quant \<Rightarrow> nat" where
  "q_min q = (case q of One \<Rightarrow> 1 | Opt \<Rightarrow> 0 | Star \<Rightarrow> 0 | Plus \<Rightarrow> 1)"

definition q_max :: "quant \<Rightarrow> nat \<Rightarrow> nat" where
  \<comment> \<open>the most characters the quantifier takes, of \<open>n\<close> available\<close>
  "q_max q n = (case q of One \<Rightarrow> min 1 n | Opt \<Rightarrow> min 1 n | Star \<Rightarrow> n | Plus \<Rightarrow> n)"

fun first_some :: "(nat \<Rightarrow> 'a option) \<Rightarrow> nat list \<Rightarrow> 'a option" where
  "first_some f [] = None"
| "first_some f (k # ks) = (case f k of Some r \<Rightarrow> Some r | None \<Rightarrow> first_some f ks)"

primrec match_here :: "item list \<Rightarrow> string \<Rightarrow> string list option" where
  "match_here [] s = Some []"
| "match_here (it # rest) s =
     (case it of Item q cap p \<Rightarrow>
        (let n = length (takeWhile p s) in
         first_some
           (\<lambda>k. map_option (\<lambda>gs. if cap then take k s # gs else gs)
                   (match_here rest (drop k s)))
           (rev [q_min q ..< Suc (q_max q n)])))"

fun re_search :: "item list \<Rightarrow> string \<Rightarrow> string list option" where
  "re_search pat [] = match_here pat []"
| "re_search pat (c # cs) =
     (case match_here pat (c # cs) of Some gs \<Rightarrow> Some gs | None \<Rightarrow> re_search pat cs)"

definition lit :: "string \<Rightarrow> item list" where
  "lit s = map (\<lambda>c. Item One False (is_char c)) s"

definition lit_ci :: "string \<Rightarrow> item list" where
  "lit_ci s = map (\<lambda>c. Item One False (is_char_ci c)) s"

definition income_pattern :: "item list" where
  \<comment> \<open>\<open>r'Eligible Income:?\s*\$?([\d,]+)\s*-\s*\$?([\d,]+)'\<close> with \<open>re.IGNORECASE\<close>\<close>
  "income_pattern = lit_ci ''Eligible Income'' @
     [Item Opt False (is_char_ci CHR '':''), Item Star False is_space,
      Item Opt False (is_char_ci CHR ''$''), Item Plus True is_digit_or_comma,
      Item Star False is_space, Item One False (is_char_ci CHR ''-''),
      Item Star False is_space, Item Opt False (is_char_ci CHR ''$''),
      Item Plus True is_digit_or_comma]"

definition pages_pattern :: "item list" where
  \<comment> \<open>\<open>r'(\d+)\s*/\s*(\d+)'\<close>\<close>
  "pages_pattern = [Item Plus True is_digit, Item Star False is_space,
     Item One False (is_char CHR ''/''), Item Star False is_space, Item Plus True is_digit]"

definition photo_pattern :: "item list" where
  \<comment> \<open>\<open>r'/photos/(\d+)\.'\<close>\<close>
  "photo_pattern = lit ''/photos/'' @ [Item Plus True is_digit, Item One False (is_char CHR ''.'')]"

definition units_pattern :: "item list" where
  \<comment> \<open>\<open>r'(\d+)\s*Unit'\<close>\<close>
  "units_pattern = [Item Plus True is_digit, Item Star False is_space] @ lit ''Unit''"

definition days_pattern :: "item list" where
  \<comment> \<open>\<open>r'(\d+)\s*days?'\<close> with \<open>re.IGNORECASE\<close>\<close>
  "days_pattern = [Item Plus True is_digit, Item Star False is_space] @ lit_ci ''day'' @
     [Item Opt False (is_char_ci CHR ''s'')]"

subsection \<open>The income-range parser\<close>

definition parse_income_range :: "string \<Rightarrow> exn + (int option \<times> int option)" where
  "parse_income_range text =
     (case re_search income_pattern text of
        Some [g1, g2] \<Rightarrow>
          (case py_int (remove_commas g1) of
             Inl e \<Rightarrow> Inl e
           | Inr min_income \<Rightarrow>
               (case py_int (remove_commas g2) of
                  Inl e \<Rightarrow> Inl e
                | Inr max_income \<Rightarrow> Inr (Some min_income, Some max_income)))
      | _ \<Rightarrow> Inr (None, None))"

definition cons_first :: "char \<Rightarrow> string list \<Rightarrow> string list" where
  \<comment> \<open>one more character at the front of the first group\<close>
  "cons_first c r = (case r of [] \<Rightarrow> [] | g # gs \<Rightarrow> (c # g) # gs)"

section \<open>The browser\<close>

text \<open>
  The browser-automation library is outside the program. It is a parameter of the model:
  a record of operations on a state of the browser \<open>'w\<close> and on element handles \<open>'e\<close>.
  An operation returns the new state and either a value or the exception it raised.
  \<open>time.sleep\<close> lets the browser move on by itself; the two numbers are the bounds of the
  delay in milliseconds (equal unless the delay is drawn by \<open>random.uniform\<close>).
\<close>

type_synonym ('w, 'a) io = "'w \<Rightarrow> (exn + 'a) \<times> 'w"

record ('w, 'e) driver =
  page_goto :: "string \<Rightarrow> ('w, unit) io"
  page_url :: "'w \<Rightarrow> string"
  page_wait_for_selector :: "string \<Rightarrow> int \<Rightarrow> ('w, 'e option) io"
  page_query_selector :: "string \<Rightarrow> ('w, 'e option) io"
  page_query_selector_all :: "string \<Rightarrow> ('w, 'e list) io"
  page_text_content :: "string \<Rightarrow> ('w, string option) io"
  page_reload :: "('w, unit) io"
  el_query_selector :: "'e \<Rightarrow> string \<Rightarrow> ('w, 'e option) io"
  el_text_content :: "'e \<Rightarrow> ('w, string option) io"
  el_get_attribute :: "'e \<Rightarrow> string \<Rightarrow> ('w, string option) io"
  el_click :: "'e \<Rightarrow> ('w, unit) io"
  el_hover :: "'e \<Rightarrow> ('w, unit) io"
  el_fill :: "'e \<Rightarrow> string \<Rightarrow> ('w, unit) io"
  el_press :: "'e \<Rightarrow> string \<Rightarrow> ('w, unit) io"
  el_evaluate :: "'e \<Rightarrow> string \<Rightarrow> ('w, string) io"
  sleep :: "int \<Rightarrow> int \<Rightarrow> 'w \<Rightarrow> 'w"

definition ret :: "'a \<Rightarrow> ('w, 'a) io" where
  "ret a w = (Inr a, w)"

definition raise :: "exn \<Rightarrow> ('w, 'a) io" where
  "raise e w = (Inl e, w)"

definition bnd :: "('w, 'a) io \<Rightarrow> ('a \<Rightarrow> ('w, 'b) io) \<Rightarrow> ('w, 'b) io" where
  "bnd m f w = (case m w of (Inl e, w') \<Rightarrow> (Inl e, w') | (Inr a, w') \<Rightarrow> f a w')"

definition seq :: "('w, 'a) io \<Rightarrow> ('w, 'b) io \<Rightarrow> ('w, 'b) io" where
  "seq m k = bnd m (\<lambda>_. k)"

definition try_except :: "('w, 'a) io \<Rightarrow> ('w, 'a) io \<Rightarrow> ('w, 'a) io" where
  \<comment> \<open>\<open>try: m  except Exception: h\<close>\<close>
  "try_except m h w = (case m w of (Inl e, w') \<Rightarrow> h w' | (Inr a, w') \<Rightarrow> (Inr a, w'))"

definition try_except_timeout :: "('w, 'a) io \<Rightarrow> ('w, 'a) io \<Rightarrow> ('w, 'a) io" where
  \<comment> \<open>\<open>try: m  except PlaywrightTimeout: h\<close>\<close>
  "try_except_timeout m h w =
     (case m w of (Inl e, w') \<Rightarrow> (if e = PlaywrightTimeout then h w' else (Inl e, w'))
      | (Inr a, w') \<Rightarrow> (Inr a, w'))"

definition lift :: "exn + 'a \<Rightarrow> ('w, 'a) io" where
  "lift r w = (r, w)"

definition time_sleep :: "('w, 'e) driver \<Rightarrow> int \<Rightarrow> int \<Rightarrow> ('w, unit) io" where
  "time_sleep D lo hi w = (Inr (), sleep D lo hi w)"

definition text_strip :: "string option \<Rightarrow> ('w, string) io" where
  \<comment> \<open>\<open>el.text_content().strip()\<close>: \<open>None\<close> has no \<open>strip\<close>\<close>
  "text_strip t = (case t of None \<Rightarrow> raise AttributeError | Some s \<Rightarrow> ret (strip s))"

definition text_or_empty :: "string option \<Rightarrow> string" where
  \<comment> \<open>\<open>t or ''\<close>\<close>
  "text_or_empty t = (case t of None \<Rightarrow> [] | Some s \<Rightarrow> s)"

definition search_text :: "item list \<Rightarrow> string option \<Rightarrow> ('w, string list option) io" where
  \<comment> \<open>\<open>re.search(pat, t)\<close>: \<open>None\<close> is not a string\<close>
  "search_text pat t = (case t of None \<Rightarrow> raise TypeError | Some s \<Rightarrow> ret (re_search pat s))"

definition BASE_URL :: string where
  "BASE_URL = ''https://housingconnect.nyc.gov/PublicWeb''"

definition LOGIN_URL :: string where
  "LOGIN_URL = BASE_URL @ ''/login''"

definition LOTTERIES_URL :: string where
  "LOTTERIES_URL = BASE_URL @ ''/search-lotteries''"

record bot =
  username :: "string option"
  password :: "string option"
  annual_income :: int

record LotteryInfo =
  l_id :: string
  l_title :: string
  l_lottery_type :: string
  l_location :: "string option"
  l_units_available :: "int option"
  l_days_until_closing :: "int option"
  l_min_income :: "int option"
  l_max_income :: "int option"
  l_is_applied :: bool
  l_url :: "string option"

section \<open>Navigation and pagination\<close>

definition click_tab :: "('w, 'e) driver \<Rightarrow> string \<Rightarrow> ('w, bool option) io" where
  \<comment> \<open>the body of the second \<open>try\<close> of \<open>navigate_to_lotteries\<close>; \<open>Some\<close> is a \<open>return\<close>\<close>
  \<open>click_tab D tab_text =
     bnd (page_query_selector D (''span.font-lg:text-is("'' @ tab_text @ ''")'')) (\<lambda>tab.
       case tab of
         Some t \<Rightarrow> seq (el_click D t) (seq (time_sleep D 2000 2000) (ret (Some True)))
       | None \<Rightarrow>
           bnd (page_query_selector D (''text="'' @ tab_text @ ''"'')) (\<lambda>tab.
             case tab of
               Some t \<Rightarrow> seq (el_click D t) (seq (time_sleep D 2000 2000) (ret (Some True)))
             | None \<Rightarrow> ret None))\<close>

definition navigate_to_lotteries :: "('w, 'e) driver \<Rightarrow> string \<Rightarrow> ('w, bool) io" where
  "navigate_to_lotteries D lottery_type =
     seq (page_goto D LOTTERIES_URL)
    (seq (time_sleep D 3000 3000)
    (seq (try_except_timeout
            (seq (page_wait_for_selector D ''app-lottery-grid-card'' 15000) (ret ()))
            (ret ()))
    (bnd (try_except
            (click_tab D (if lottery_type = ''rental'' then ''Rentals'' else ''Sales''))
            (ret None))
       (\<lambda>r. case r of Some b \<Rightarrow> ret b | None \<Rightarrow> ret True))))"

definition read_total_pages :: "('w, 'e) driver \<Rightarrow> ('w, int option) io" where
  \<comment> \<open>the body of the \<open>try\<close> of \<open>_get_total_pages\<close>; \<open>Some\<close> is a \<open>return\<close>. A match of
      the pattern has two groups.\<close>
  "read_total_pages D =
     bnd (page_query_selector D ''.small-screen'') (\<lambda>pagination_text.
       case pagination_text of
         None \<Rightarrow> ret None
       | Some el \<Rightarrow>
           bnd (el_text_content D el) (\<lambda>text.
           bnd (search_text pages_pattern text) (\<lambda>m.
             case m of
               Some [g1, g2] \<Rightarrow> bnd (lift (py_int g2)) (\<lambda>n. ret (Some n))
             | _ \<Rightarrow> ret None)))"

definition get_total_pages :: "('w, 'e) driver \<Rightarrow> ('w, int) io" where
  "get_total_pages D =
     bnd (try_except (read_total_pages D) (ret None))
       (\<lambda>r. case r of Some n \<Rightarrow> ret n | None \<Rightarrow> ret 1)"

definition first_card_src :: "('w, 'e) driver \<Rightarrow> ('w, string option) io" where
  "first_card_src D =
     bnd (page_query_selector D ''app-lottery-grid-card img.card-image'') (\<lambda>first_card.
       case first_card of None \<Rightarrow> ret None | Some c \<Rightarrow> el_get_attribute D c ''src'')"

fun find_page_link :: "('w, 'e) driver \<Rightarrow> 'e list \<Rightarrow> string \<Rightarrow> ('w, 'e option) io" where
  \<comment> \<open>\<open>for link in links: if link.text_content().strip() == str(page_num): ... break\<close>\<close>
  "find_page_link D [] n = ret None"
| "find_page_link D (link # links) n =
     bnd (el_text_content D link) (\<lambda>t.
     bnd (text_strip t) (\<lambda>s.
       if s = n then ret (Some link) else find_page_link D links n))"

fun wait_page_change :: "('w, 'e) driver \<Rightarrow> string option \<Rightarrow> nat \<Rightarrow> ('w, bool) io" where
  \<comment> \<open>\<open>for _ in range(k)\<close>, then \<open>return True\<close>\<close>
  "wait_page_change D old_src 0 = ret True"
| "wait_page_change D old_src (Suc k) =
     seq (time_sleep D 500 500)
    (bnd (first_card_src D) (\<lambda>new_src.
       if new_src \<noteq> old_src then seq (time_sleep D 500 500) (ret True)
       else wait_page_change D old_src k))"

definition go_to_page_body :: "('w, 'e) driver \<Rightarrow> int \<Rightarrow> ('w, bool option) io" where
  \<comment> \<open>the body of the \<open>try\<close> of \<open>_go_to_page\<close>; \<open>Some\<close> is a \<open>return\<close>\<close>
  \<open>go_to_page_body D page_num =
     bnd (first_card_src D) (\<lambda>old_src.
     bnd (page_query_selector D (''.ngx-pagination li a >> text="'' @ py_str page_num @ ''"''))
       (\<lambda>page_link.
     bnd (case page_link of
            Some l \<Rightarrow> ret (Some l)
          | None \<Rightarrow>
              bnd (page_query_selector_all D ''.ngx-pagination li a'') (\<lambda>links.
                find_page_link D links (py_str page_num)))
       (\<lambda>page_link.
          case page_link of
            Some l \<Rightarrow> seq (el_click D l) (bnd (wait_page_change D old_src 10) (\<lambda>b. ret (Some b)))
          | None \<Rightarrow> ret None)))\<close>

definition go_to_page :: "('w, 'e) driver \<Rightarrow> int \<Rightarrow> ('w, bool) io" where
  "go_to_page D page_num =
     bnd (try_except (go_to_page_body D page_num) (ret None))
       (\<lambda>r. case r of Some b \<Rightarrow> ret b | None \<Rightarrow> ret False)"

section \<open>Card extraction and listing collection\<close>

definition read_lottery_id :: "('w, 'e) driver \<Rightarrow> 'e \<Rightarrow> ('w, string option) io" where
  \<comment> \<open>the identifier from the \<open>src\<close> of the card's image\<close>
  "read_lottery_id D card' =
     bnd (el_query_selector D card' ''img.card-image'') (\<lambda>img.
       case img of
         None \<Rightarrow> ret None
       | Some i \<Rightarrow>
           bnd (el_get_attribute D i ''src'') (\<lambda>src.
             case src of
               None \<Rightarrow> ret None
             | Some s \<Rightarrow>
                 if s = [] then ret None
                 else (case re_search photo_pattern s of
                         Some [g] \<Rightarrow> ret (Some g)
                       | _ \<Rightarrow> ret None)))"

definition read_title :: "('w, 'e) driver \<Rightarrow> 'e \<Rightarrow> ('w, string) io" where
  "read_title D card' =
     bnd (el_query_selector D card' ''.title.title-h3'') (\<lambda>title_el.
       case title_el of
         None \<Rightarrow> ret ''Unknown''
       | Some t \<Rightarrow> bnd (el_text_content D t) text_strip)"

definition read_location :: "('w, 'e) driver \<Rightarrow> 'e \<Rightarrow> ('w, string option) io" where
  "read_location D card' =
     bnd (el_query_selector D card' ''.location'') (\<lambda>location_el.
       case location_el of
         None \<Rightarrow> ret None
       | Some l \<Rightarrow> bnd (el_text_content D l) (\<lambda>t. bnd (text_strip t) (\<lambda>s. ret (Some s))))"

definition read_number :: "('w, 'e) driver \<Rightarrow> 'e \<Rightarrow> string \<Rightarrow> item list \<Rightarrow> ('w, int option) io" where
  \<comment> \<open>the units and the days until closing: the first group of the pattern in the text of
      the element, when both are there\<close>
  "read_number D card' selector pat =
     bnd (el_query_selector D card' selector) (\<lambda>el.
       case el of
         None \<Rightarrow> ret None
       | Some u \<Rightarrow>
           bnd (el_text_content D u) (\<lambda>text.
           bnd (search_text pat text) (\<lambda>m.
             case m of
               Some [g] \<Rightarrow> bnd (lift (py_int g)) (\<lambda>n. ret (Some n))
             | _ \<Rightarrow> ret None)))"

definition read_is_applied :: "('w, 'e) driver \<Rightarrow> 'e \<Rightarrow> ('w, bool) io" where
  "read_is_applied D card' =
     bnd (el_query_selector D card' ''button.btn-grey-90'') (\<lambda>applied_btn.
       case applied_btn of
         None \<Rightarrow> ret False
       | Some b \<Rightarrow>
           bnd (el_text_content D b) (\<lambda>t.
           bnd (text_strip t) (\<lambda>btn_text. ret (py_in ''Applied'' btn_text))))"

definition parse_lottery_card_body ::
  "('w, 'e) driver \<Rightarrow> 'e \<Rightarrow> string \<Rightarrow> ('w, LotteryInfo option) io" where
  \<comment> \<open>the body of the \<open>try\<close> of \<open>_parse_lottery_card\<close>; \<open>Some\<close> is its \<open>return\<close>\<close>
  "parse_lottery_card_body D card' lottery_type =
     bnd (read_lottery_id D card') (\<lambda>lottery_id.
     bnd (read_title D card') (\<lambda>title.
     bnd (read_location D card') (\<lambda>location.
     bnd (read_number D card' ''.pb-xs.title-h6'' units_pattern) (\<lambda>units.
     bnd (read_number D card' ''.prefix.title-h4'' days_pattern) (\<lambda>days_closing.
     bnd (read_is_applied D card') (\<lambda>is_applied.
       case lottery_id of
         None \<Rightarrow> ret None
       | Some i \<Rightarrow>
           if i = [] then ret None
           else ret (Some \<lparr>l_id = i, l_title = title, l_lottery_type = lottery_type,
                  l_location = location, l_units_available = units,
                  l_days_until_closing = days_closing, l_min_income = None,
                  l_max_income = None, l_is_applied = is_applied,
                  l_url = Some (BASE_URL @ ''/lottery-details/'' @ i)\<rparr>)))))))"

definition parse_lottery_card ::
  "('w, 'e) driver \<Rightarrow> 'e \<Rightarrow> string \<Rightarrow> ('w, LotteryInfo option) io" where
  "parse_lottery_card D card' lottery_type =
     try_except (parse_lottery_card_body D card' lottery_type) (ret None)"

fun parse_cards ::
  "('w, 'e) driver \<Rightarrow> 'e list \<Rightarrow> string \<Rightarrow> LotteryInfo list \<Rightarrow> ('w, LotteryInfo list) io" where
  \<comment> \<open>\<open>for i, card in enumerate(cards)\<close>\<close>
  "parse_cards D [] lottery_type lotteries = ret lotteries"
| "parse_cards D (card' # cards) lottery_type lotteries =
     bnd (parse_lottery_card D card' lottery_type) (\<lambda>lottery_info.
       case lottery_info of
         Some info \<Rightarrow> parse_cards D cards lottery_type (lotteries @ [info])
       | None \<Rightarrow> parse_cards D cards lottery_type lotteries)"

definition get_lotteries_from_current_page ::
  "('w, 'e) driver \<Rightarrow> string \<Rightarrow> ('w, LotteryInfo list) io" where
  "get_lotteries_from_current_page D lottery_type =
     seq (time_sleep D 1000 1000)
    (bnd (page_query_selector_all D ''app-lottery-grid-card'') (\<lambda>cards.
       if cards = [] then ret [] else parse_cards D cards lottery_type []))"

fun add_new ::
  "LotteryInfo list \<Rightarrow> LotteryInfo list \<times> string set \<Rightarrow> LotteryInfo list \<times> string set" where
  \<comment> \<open>\<open>for lottery in page_lotteries: if lottery.id not in seen_ids: ...\<close>\<close>
  "add_new [] (all_lotteries, seen_ids) = (all_lotteries, seen_ids)"
| "add_new (lottery # page_lotteries) (all_lotteries, seen_ids) =
     (if l_id lottery \<notin> seen_ids
      then add_new page_lotteries (all_lotteries @ [lottery], insert (l_id lottery) seen_ids)
      else add_new page_lotteries (all_lotteries, seen_ids))"

fun collect_pages ::
  "('w, 'e) driver \<Rightarrow> string \<Rightarrow> int list \<Rightarrow> LotteryInfo list \<times> string set
   \<Rightarrow> ('w, LotteryInfo list) io" where
  \<comment> \<open>\<open>for page_num in range(1, total_pages + 1)\<close>, then \<open>return all_lotteries\<close>\<close>
  "collect_pages D lottery_type [] (all_lotteries, seen_ids) = ret all_lotteries"
| "collect_pages D lottery_type (page_num # page_nums) (all_lotteries, seen_ids) =
     seq (if page_num > 1 then go_to_page D page_num else ret True)
    (bnd (get_lotteries_from_current_page D lottery_type) (\<lambda>page_lotteries.
       collect_pages D lottery_type page_nums
         (add_new page_lotteries (all_lotteries, seen_ids))))"

definition get_lottery_ids :: "('w, 'e) driver \<Rightarrow> string \<Rightarrow> ('w, LotteryInfo list) io" where
  "get_lottery_ids D lottery_type =
     seq (navigate_to_lotteries D lottery_type)
    (bnd (get_total_pages D) (\<lambda>total_pages.
       collect_pages D lottery_type [1 .. total_pages] ([], {})))"

section \<open>Login\<close>

definition login_body :: "('w, 'e) driver \<Rightarrow> string \<Rightarrow> string \<Rightarrow> ('w, bool) io" where
  \<comment> \<open>the body of the \<open>try\<close> of \<open>login\<close>, which returns on every path\<close>
  \<open>login_body D user pass =
     bnd (page_query_selector D
            ''a:has-text("Log In"), a:has-text("Login"), a:has-text("Sign In")'') (\<lambda>login_link.
       case login_link of
         None \<Rightarrow> ret False
       | Some link \<Rightarrow>
           seq (el_click D link)
          (seq (time_sleep D 3000 3000)
          (bnd (page_wait_for_selector D
                  ''input[type="email"], input[type="text"], input[name="email"], input#email''
                  10000) (\<lambda>email_input.
           bnd (page_query_selector D ''input[type="password"]'') (\<lambda>password_input.
             case (email_input, password_input) of
               (Some email, Some pw) \<Rightarrow>
                 seq (el_fill D email user)
                (seq (time_sleep D 500 500)
                (seq (el_fill D pw pass)
                (seq (time_sleep D 500 500)
                (bnd (page_query_selector D
                        (''button[type="submit"], input[type="submit"], '' @
                         ''button:has-text("Log In"), button:has-text("Login")'')) (\<lambda>submit_btn.
                 seq (case submit_btn of
                        Some b \<Rightarrow> el_click D b
                      | None \<Rightarrow> el_press D pw ''Enter'')
                (seq (time_sleep D 5000 5000)
                (\<lambda>w. let current_url = page_url D w in
                   ret (py_in ''housingconnect.nyc.gov/PublicWeb'' current_url \<and>
                        \<not> py_in ''id4/account/login'' current_url) w)))))))
             | _ \<Rightarrow> ret False)))))\<close>

definition login :: "('w, 'e) driver \<Rightarrow> bot \<Rightarrow> ('w, bool) io" where
  \<comment> \<open>\<open>not self.username\<close> holds of \<open>None\<close> and of the empty string\<close>
  "login D b =
     (case (username b, password b) of
        (Some user, Some pass) \<Rightarrow>
          if user = [] \<or> pass = [] then ret False
          else seq (page_goto D BASE_URL)
              (seq (time_sleep D 3000 3000)
              (try_except (login_body D user pass) (ret False)))
      | _ \<Rightarrow> ret False)"

section \<open>The application workflow\<close>

record outcome =
  success :: bool
  message :: string
  already_applied :: bool
  eligible :: bool
  title :: string

definition initial_result :: outcome where
  "initial_result = \<lparr>success = False, message = [], already_applied = False,
     eligible = True, title = ''Unknown''\<rparr>"

definition py_index :: "'a list \<Rightarrow> int \<Rightarrow> exn + 'a" where
  \<comment> \<open>\<open>xs[i]\<close>: a negative index counts from the end\<close>
  "py_index xs i =
     (if 0 \<le> i \<and> i < int (length xs) then Inr (xs ! nat i)
      else if i < 0 \<and> - int (length xs) \<le> i then Inr (xs ! nat (int (length xs) + i))
      else Inl IndexError)"

definition get_url :: "('w, 'e) driver \<Rightarrow> ('w, string) io" where
  \<comment> \<open>\<open>self.page.url\<close>\<close>
  "get_url D w = (Inr (page_url D w), w)"

definition card_applied :: "('w, 'e) driver \<Rightarrow> 'e \<Rightarrow> ('w, bool) io" where
  \<comment> \<open>\<open>applied_btn and 'Applied' in (applied_btn.text_content() or '')\<close>\<close>
  "card_applied D card' =
     bnd (el_query_selector D card' ''button.btn-grey-90'') (\<lambda>applied_btn.
       case applied_btn of
         None \<Rightarrow> ret False
       | Some a \<Rightarrow> bnd (el_text_content D a) (\<lambda>t. ret (py_in ''Applied'' (text_or_empty t))))"

definition wait_detail_page :: "('w, 'e) driver \<Rightarrow> ('w, unit) io" where
  \<comment> \<open>lines 452 to 476: the waits for the detail page\<close>
  \<open>wait_detail_page D =
     seq (time_sleep D 3000 5000)
    (seq (try_except_timeout
            (seq (page_wait_for_selector D
                    (''a.btn-primary:has-text("Apply Now"), button.btn-grey-90:has-text("Applied"), '' @
                     ''div:has-text("Eligible Income"), .col-md-6:has-text("Eligible Income")'')
                    45000) (ret ()))
            (seq (page_reload D)
            (seq (time_sleep D 5000 8000)
                 (try_except_timeout
                    (seq (page_wait_for_selector D
                            ''a.btn-primary:has-text("Apply Now"), button.btn-grey-90:has-text("Applied")''
                            45000) (ret ()))
                    (time_sleep D 10000 10000)))))
         (time_sleep D 2000 4000))\<close>

definition detail_applied :: "('w, 'e) driver \<Rightarrow> ('w, bool) io" where
  \<comment> \<open>lines 478 to 487: the truth value of \<open>applied_indicator\<close>\<close>
  \<open>detail_applied D =
     bnd (page_query_selector D ''button.btn-grey-90:has-text("Applied")'') (\<lambda>applied_indicator.
     bnd (case applied_indicator of
            Some a \<Rightarrow> ret (Some a)
          | None \<Rightarrow> page_query_selector D ''button:has-text("Applied")'') (\<lambda>applied_indicator.
       case applied_indicator of
         Some a \<Rightarrow> ret True
       | None \<Rightarrow>
           bnd (page_text_content D ''body'') (\<lambda>t.
             let page_text_check = text_or_empty t in
             ret (py_in ''You have already applied'' page_text_check \<or>
                  py_in ''Application Submitted'' page_text_check))))\<close>

definition find_apply_btn :: "('w, 'e) driver \<Rightarrow> ('w, 'e option) io" where
  \<open>find_apply_btn D =
     bnd (page_query_selector D ''a.btn.btn-primary:has-text("Apply Now")'') (\<lambda>apply_btn.
     bnd (case apply_btn of
            Some a \<Rightarrow> ret (Some a)
          | None \<Rightarrow> page_query_selector D ''a.btn-primary:has-text("Apply Now")'') (\<lambda>apply_btn.
       case apply_btn of
         Some a \<Rightarrow> ret (Some a)
       | None \<Rightarrow> page_query_selector D ''a:has-text("Apply Now")''))\<close>

definition confirm_dialog :: "('w, 'e) driver \<Rightarrow> ('w, unit) io" where
  \<comment> \<open>lines 524 to 551: the checkbox and the Submit button\<close>
  \<open>confirm_dialog D =
     try_except_timeout
       (seq (page_wait_for_selector D ''.mat-checkbox-inner-container'' 5000)
       (bnd (page_query_selector D ''.mat-checkbox-inner-container'') (\<lambda>checkbox_box.
        seq (case checkbox_box of
               Some c \<Rightarrow> seq (el_click D c) (time_sleep D 500 500)
             | None \<Rightarrow> ret ())
       (bnd (page_query_selector D ''button:has-text("Submit"), span:has-text("Submit")'')
          (\<lambda>submit_btn.
             case submit_btn of
               None \<Rightarrow> ret ()
             | Some sb \<Rightarrow>
                 bnd (el_evaluate D sb ''el => el.tagName'') (\<lambda>tag_name.
                 bnd (if tag_name = ''SPAN''
                      then page_query_selector D ''button:has(span:has-text("Submit"))''
                      else ret (Some sb)) (\<lambda>submit_btn.
                   case submit_btn of
                     Some sb \<Rightarrow> seq (el_click D sb) (time_sleep D 3000 3000)
                   | None \<Rightarrow> ret ())))))))
       (ret ())\<close>

definition confirm :: "('w, 'e) driver \<Rightarrow> outcome \<Rightarrow> ('w, outcome) io" where
  \<comment> \<open>lines 553 to 567: was the application taken?\<close>
  \<open>confirm D result =
     bnd (page_query_selector D ''button.btn-grey-90:has-text("Applied")'') (\<lambda>applied_check.
       case applied_check of
         Some a \<Rightarrow> ret (result\<lparr>success := True, message := ''Successfully applied!''\<rparr>)
       | None \<Rightarrow>
           bnd (get_url D) (\<lambda>url.
             if py_in ''login'' (py_lower url) \<or> py_in ''id4/account'' (py_lower url)
             then ret (result\<lparr>message := ''Redirected to login - not logged in''\<rparr>)
             else ret (result\<lparr>success := True,
                         message := ''Application submitted (unverified)''\<rparr>)))\<close>

definition return_to_list :: "('w, 'e) driver \<Rightarrow> string \<Rightarrow> ('w, unit) io" where
  \<comment> \<open>lines 569 to 589: back to the list and to the tab\<close>
  \<open>return_to_list D lottery_type =
     seq (page_goto D LOTTERIES_URL)
    (seq (time_sleep D 3000 5000)
    (seq (try_except_timeout
            (seq (page_wait_for_selector D ''app-lottery-grid-card'' 45000) (ret ()))
            (seq (page_reload D)
            (seq (time_sleep D 5000 8000)
            (seq (page_wait_for_selector D ''app-lottery-grid-card'' 60000) (ret ())))))
    (bnd (if lottery_type = ''sale''
          then page_query_selector D ''span.font-lg:text-is("Sales")''
          else page_query_selector D ''span.font-lg:text-is("Rentals")'') (\<lambda>tab.
       case tab of
         Some t \<Rightarrow> seq (el_click D t) (time_sleep D 2000 3000)
       | None \<Rightarrow> ret ()))))\<close>

definition submit_application ::
  "('w, 'e) driver \<Rightarrow> string \<Rightarrow> outcome \<Rightarrow> ('w, outcome) io" where
  \<comment> \<open>lines 507 to 591\<close>
  "submit_application D lottery_type result =
     bnd (find_apply_btn D) (\<lambda>apply_btn.
       case apply_btn of
         None \<Rightarrow> ret (result\<lparr>message := ''Could not find Apply Now button''\<rparr>)
       | Some a \<Rightarrow>
           seq (el_click D a)
          (seq (time_sleep D 2000 2000)
          (seq (confirm_dialog D)
          (bnd (confirm D result) (\<lambda>result.
           seq (return_to_list D lottery_type) (ret result))))))"

definition check_eligibility ::
  "('w, 'e) driver \<Rightarrow> bot \<Rightarrow> string \<Rightarrow> outcome \<Rightarrow> ('w, outcome) io" where
  \<comment> \<open>lines 495 to 505, and on to the submission\<close>
  "check_eligibility D b lottery_type result =
     bnd (page_text_content D ''body'') (\<lambda>t.
     bnd (lift (parse_income_range (text_or_empty t))) (\<lambda>(min_income, max_income).
       case (min_income, max_income) of
         (Some mn, Some mx) \<Rightarrow>
           if \<not> (mn \<le> annual_income b \<and> annual_income b \<le> mx)
           then ret (result\<lparr>eligible := False,
                  message := ''Not eligible: $'' @ fmt_commas (annual_income b) @
                    '' outside $'' @ fmt_commas mn @ '' - $'' @ fmt_commas mx\<rparr>)
           else submit_application D lottery_type result
       | _ \<Rightarrow> submit_application D lottery_type result))"

definition open_detail ::
  "('w, 'e) driver \<Rightarrow> bot \<Rightarrow> string \<Rightarrow> 'e \<Rightarrow> outcome \<Rightarrow> ('w, outcome) io" where
  \<comment> \<open>lines 440 to 493, and on to the eligibility check\<close>
  \<open>open_detail D b lottery_type card' result =
     seq (el_hover D card')
    (seq (time_sleep D 500 500)
    (bnd (el_query_selector D card' ''button:has-text("View Details")'') (\<lambda>view_btn.
       case view_btn of
         None \<Rightarrow> ret (result\<lparr>message := ''Could not find View Details button''\<rparr>)
       | Some v \<Rightarrow>
           seq (el_click D v)
          (seq (wait_detail_page D)
          (bnd (detail_applied D) (\<lambda>applied_indicator.
             if applied_indicator
             then ret (result\<lparr>already_applied := True, message := ''Already applied''\<rparr>)
             else check_eligibility D b lottery_type result))))))\<close>

definition workflow_title :: "('w, 'e) driver \<Rightarrow> 'e \<Rightarrow> ('w, string) io" where
  \<comment> \<open>\<open>title_el.text_content().strip() if title_el else "Unknown"\<close>\<close>
  "workflow_title D card' =
     bnd (el_query_selector D card' ''.title.title-h3'') (\<lambda>title_el.
       case title_el of
         None \<Rightarrow> ret ''Unknown''
       | Some t \<Rightarrow> bnd (el_text_content D t) text_strip)"

definition ensure_list_view :: "('w, 'e) driver \<Rightarrow> string \<Rightarrow> ('w, unit) io" where
  \<comment> \<open>\<open>if 'search-lotteries' not in self.page.url: self.navigate_to_lotteries(lottery_type)\<close>\<close>
  "ensure_list_view D lottery_type =
     bnd (get_url D) (\<lambda>url.
       if \<not> py_in ''search-lotteries'' url
       then seq (navigate_to_lotteries D lottery_type) (ret ())
       else ret ())"

definition apply_to_lottery_by_click ::
  "('w, 'e) driver \<Rightarrow> bot \<Rightarrow> int \<Rightarrow> string \<Rightarrow> ('w, outcome) io" where
  "apply_to_lottery_by_click D b card_index lottery_type =
     seq (ensure_list_view D lottery_type)
    (bnd (page_query_selector_all D ''app-lottery-grid-card'') (\<lambda>cards.
       if card_index \<ge> int (length cards)
       then ret (initial_result\<lparr>message :=
              ''Card index '' @ py_str card_index @ '' out of range''\<rparr>)
       else
         bnd (lift (py_index cards card_index)) (\<lambda>card'.
         bnd (workflow_title D card') (\<lambda>t.
         bnd (card_applied D card') (\<lambda>applied.
           if applied
           then ret (initial_result\<lparr>title := t, already_applied := True,
                  message := ''Already applied''\<rparr>)
           else open_detail D b lottery_type card' (initial_result\<lparr>title := t\<rparr>))))))"

section \<open>The batch run over the sale lotteries\<close>








section \<open>What the code is compared with\<close>

fun page_results ::
  "('w, 'e) driver \<Rightarrow> string \<Rightarrow> int list \<Rightarrow> ('w, LotteryInfo list list) io" where
  \<comment> \<open>the card-parse results of the pages, page by page, as \<open>get_lottery_ids\<close> walks them\<close>
  "page_results D lottery_type [] = ret []"
| "page_results D lottery_type (page_num # page_nums) =
     seq (if page_num > 1 then go_to_page D page_num else ret True)
    (bnd (get_lotteries_from_current_page D lottery_type) (\<lambda>page_lotteries.
     bnd (page_results D lottery_type page_nums) (\<lambda>rest.
       ret (page_lotteries # rest))))"

fun first_seen :: "LotteryInfo list \<Rightarrow> LotteryInfo list" where
  \<comment> \<open>every record at the place where its id is first seen, later ones with that id dropped\<close>
  "first_seen [] = []"
| "first_seen (x # xs) = x # first_seen (filter (\<lambda>y. l_id y \<noteq> l_id x) xs)"

definition reasons :: "outcome \<Rightarrow> nat" where
  \<comment> \<open>how many of the three terminal reasons an outcome gives\<close>
  "reasons r = length (filter id [success r, already_applied r, \<not> eligible r])"


section \<open>Browsers to run the model on\<close>

definition blank_driver :: "(unit, nat) driver" where
  \<comment> \<open>the listings page with nothing on it: no element is found, nothing raises\<close>
  "blank_driver = \<lparr>page_goto = (\<lambda>u. ret ()), page_url = (\<lambda>w. LOTTERIES_URL),
     page_wait_for_selector = (\<lambda>s t. ret None), page_query_selector = (\<lambda>s. ret None),
     page_query_selector_all = (\<lambda>s. ret []), page_text_content = (\<lambda>s. ret None),
     page_reload = ret (), el_query_selector = (\<lambda>e s. ret None),
     el_text_content = (\<lambda>e. ret None), el_get_attribute = (\<lambda>e a. ret None),
     el_click = (\<lambda>e. ret ()), el_hover = (\<lambda>e. ret ()), el_fill = (\<lambda>e s. ret ()),
     el_press = (\<lambda>e k. ret ()), el_evaluate = (\<lambda>e s. ret []), sleep = (\<lambda>lo hi w. w)\<rparr>"

definition pager_driver :: "string option \<Rightarrow> (unit, nat) driver" where
  \<comment> \<open>a page whose pagination element has the given text\<close>
  "pager_driver t = blank_driver
     \<lparr>page_query_selector := (\<lambda>s. if s = ''.small-screen'' then ret (Some 0) else ret None),
      el_text_content := (\<lambda>e. ret t)\<rparr>"

definition card_driver :: "string option \<Rightarrow> string option \<Rightarrow> (unit, nat) driver" where
  \<comment> \<open>a list view with one card, element 0, with the given image source (\<open>None\<close>: no image)
      and the given title text (\<open>None\<close>: no title element)\<close>
  "card_driver src ttl = blank_driver
     \<lparr>page_query_selector_all := (\<lambda>s. if s = ''app-lottery-grid-card'' then ret [0] else ret []),
      el_query_selector := (\<lambda>e s.
        if s = ''img.card-image'' \<and> src \<noteq> None then ret (Some 1)
        else if s = ''.title.title-h3'' \<and> ttl \<noteq> None then ret (Some 2)
        else ret None),
      el_text_content := (\<lambda>e. ret ttl),
      el_get_attribute := (\<lambda>e a. ret src)\<rparr>"

definition photo_src :: string where
  "photo_src = ''https://a806-housingconnectapi.nyc.gov/MailTemplates/photos/34926806.png''"

definition two_page_driver :: "(nat, nat) driver" where
  \<comment> \<open>two pages of cards; the state is the number of the page shown. Page 1 shows the
      cards 11 and 12, page 2 the cards 12 and 13; the image of card \<open>k\<close> is element
      \<open>100 + k\<close>, with \<open>/photos/<100 + k>.png\<close> as source. Element 1 is the pagination
      text, element 2 the link to page 2.\<close>
  \<open>two_page_driver = \<lparr>page_goto = (\<lambda>u w. (Inr (), 1)), page_url = (\<lambda>w. LOTTERIES_URL),
     page_wait_for_selector = (\<lambda>s t. ret None),
     page_query_selector = (\<lambda>s.
       if s = ''.small-screen'' then ret (Some 1)
       else if s = ''.ngx-pagination li a >> text="2"'' then ret (Some 2)
       else if s = ''app-lottery-grid-card img.card-image''
       then (\<lambda>w. (Inr (Some (if w = 2 then 112 else 111)), w))
       else ret None),
     page_query_selector_all = (\<lambda>s.
       if s = ''app-lottery-grid-card''
       then (\<lambda>w. (Inr (if w = 2 then [12, 13] else [11, 12]), w))
       else ret []),
     page_text_content = (\<lambda>s. ret None), page_reload = ret (),
     el_query_selector = (\<lambda>e s. if s = ''img.card-image'' then ret (Some (100 + e)) else ret None),
     el_text_content = (\<lambda>e. if e = 1 then ret (Some ''1 / 2'') else ret None),
     el_get_attribute = (\<lambda>e a. ret (Some (''/photos/'' @ digits_of (int e) @ ''.png''))),
     el_click = (\<lambda>e. if e = 2 then (\<lambda>w. (Inr (), 2)) else ret ()),
     el_hover = (\<lambda>e. ret ()), el_fill = (\<lambda>e s. ret ()),
     el_press = (\<lambda>e k. ret ()), el_evaluate = (\<lambda>e s. ret []), sleep = (\<lambda>lo hi w. w)\<rparr>\<close>

definition listed :: "string \<Rightarrow> LotteryInfo" where
  \<comment> \<open>the record of a rental card that shows nothing but its image\<close>
  "listed i = \<lparr>l_id = i, l_title = ''Unknown'', l_lottery_type = ''rental'',
     l_location = None, l_units_available = None, l_days_until_closing = None,
     l_min_income = None, l_max_income = None, l_is_applied = False,
     l_url = Some (BASE_URL @ ''/lottery-details/'' @ i)\<rparr>"

definition detail_driver :: "string \<Rightarrow> (bool, nat) driver" where
  \<comment> \<open>a list view with one card, element 0, titled \<open>Tower A\<close> (element 2), with a View
      Details button (element 3); its detail page has the given body text and an Apply Now
      link (element 4). The state tells whether Apply Now was clicked; from then on the
      Applied button (element 5) is shown.\<close>
  \<open>detail_driver body = \<lparr>page_goto = (\<lambda>u. ret ()), page_url = (\<lambda>w. LOTTERIES_URL),
     page_wait_for_selector = (\<lambda>s t. ret None),
     page_query_selector = (\<lambda>s.
       if s = ''button.btn-grey-90:has-text("Applied")''
       then (\<lambda>w. (Inr (if w then Some 5 else None), w))
       else if s = ''a.btn.btn-primary:has-text("Apply Now")'' then ret (Some 4)
       else ret None),
     page_query_selector_all = (\<lambda>s. if s = ''app-lottery-grid-card'' then ret [0] else ret []),
     page_text_content = (\<lambda>s. ret (Some body)), page_reload = ret (),
     el_query_selector = (\<lambda>e s.
       if s = ''.title.title-h3'' then ret (Some 2)
       else if s = ''button:has-text("View Details")'' then ret (Some 3)
       else ret None),
     el_text_content = (\<lambda>e. ret (Some ''Tower A'')),
     el_get_attribute = (\<lambda>e a. ret None),
     el_click = (\<lambda>e. if e = 4 then (\<lambda>w. (Inr (), True)) else ret ()),
     el_hover = (\<lambda>e. ret ()), el_fill = (\<lambda>e s. ret ()),
     el_press = (\<lambda>e k. ret ()), el_evaluate = (\<lambda>e s. ret []), sleep = (\<lambda>lo hi w. w)\<rparr>\<close>

definition applicant :: "int \<Rightarrow> bot" where
  \<comment> \<open>a configuration with credentials and the given annual income\<close>
  "applicant income = \<lparr>username = Some ''user@example.org'', password = Some ''secret'',
     annual_income = income\<rparr>"

definition no_apply_driver :: "(bool, nat) driver" where
  \<comment> \<open>as \<open>detail_driver\<close>, but the detail page has no Apply Now link and no Applied button\<close>
  "no_apply_driver = (detail_driver ''Income limits apply'')
     \<lparr>page_query_selector := (\<lambda>s. ret None)\<rparr>"

definition logged_out_driver :: "(bool, nat) driver" where
  \<comment> \<open>as \<open>detail_driver\<close>, but the click on Apply Now leads to the login page and no Applied
      button is ever shown\<close>
  \<open>logged_out_driver = (detail_driver ''Income limits apply'')
     \<lparr>page_url := (\<lambda>w. if w then LOGIN_URL else LOTTERIES_URL),
      page_query_selector := (\<lambda>s.
        if s = ''a.btn.btn-primary:has-text("Apply Now")'' then ret (Some 4) else ret None)\<rparr>\<close>






section \<open>Properties\<close>

subsection \<open>The matcher, one character at a time\<close>

lemma first_some_append:
  "first_some f (xs @ ys) = (case first_some f xs of Some r \<Rightarrow> Some r | None \<Rightarrow> first_some f ys)"
  by (induction xs) (auto split: option.splits)

lemma first_some_map: "first_some f (map g xs) = first_some (\<lambda>k. f (g k)) xs"
  by (induction xs) (auto split: option.splits)

lemma first_some_map_option:
  "first_some (\<lambda>k. map_option h (f k)) xs = map_option h (first_some f xs)"
  by (induction xs) (auto split: option.splits)

lemma rev_upt_shift: "rev [Suc a ..< Suc b] = map Suc (rev [a ..< b])"
  by (simp only: map_Suc_upt [symmetric] rev_map)

lemma rev_upt_last:
  "a \<le> Suc b \<Longrightarrow> rev [a ..< Suc (Suc b)] = map Suc (rev [a ..< Suc b]) @ [a]"
proof -
  assume "a \<le> Suc b"
  then have "[a ..< Suc (Suc b)] = a # [Suc a ..< Suc (Suc b)]"
    by (simp add: upt_conv_Cons)
  then show ?thesis
    by (simp only: rev.simps rev_upt_shift)
qed

lemma match_One_Cons: "match_here (Item One cap p # rest) (c # s) =
  (if p c then map_option (\<lambda>gs. if cap then [c] # gs else gs) (match_here rest s) else None)"
  by (auto simp: q_min_def q_max_def split: option.splits)

lemma match_One_Nil: "match_here (Item One cap p # rest) [] = None"
  by (simp add: q_min_def q_max_def)





lemma match_Plus_Nil: "match_here (Item Plus cap p # rest) [] = None"
  by (simp add: q_min_def q_max_def)

lemma match_Plus_Cons: "match_here (Item Plus True p # rest) (c # s) =
  (if p c then (case match_here (Item Plus True p # rest) s of Some r \<Rightarrow> Some (cons_first c r)
                | None \<Rightarrow> map_option (\<lambda>gs. [c] # gs) (match_here rest s))
   else None)"
proof (cases "p c")
  case False
  then show ?thesis by (simp add: q_min_def q_max_def)
next
  case True
  define n where "n = length (takeWhile p s)"
  have up: "rev [Suc 0 ..< Suc (Suc n)] = map Suc (rev [Suc 0 ..< Suc n]) @ [Suc 0]"
    by (rule rev_upt_last) simp
  have h: "(\<lambda>k. map_option ((#) (c # take k s)) (match_here rest (drop k s))) =
     (\<lambda>k. map_option (cons_first c) (map_option ((#) (take k s)) (match_here rest (drop k s))))"
    by (auto simp: fun_eq_iff option.map_comp cons_first_def comp_def)
  show ?thesis using True
    apply (simp add: q_min_def q_max_def n_def [symmetric] up first_some_append
        first_some_map del: upt_Suc)
    apply (simp only: h first_some_map_option)
    apply (simp split: option.splits)
    done
qed

declare match_here.simps [simp del]

lemma match_Plus_stop:
  "s = [] \<or> \<not> p (hd s) \<Longrightarrow> match_here (Item Plus True p # rest) s = None"
  by (cases s) (auto simp: match_Plus_Cons match_Plus_Nil)

lemma match_lit_ci_Cons: "match_here (lit_ci (a # as) @ rest) (c # s) =
  (if is_char_ci a c then match_here (lit_ci as @ rest) s else None)"
  by (simp add: lit_ci_def match_One_Cons option.map_ident)

lemma match_lit_ci_Nil: "match_here (lit_ci (a # as) @ rest) [] = None"
  by (simp add: lit_ci_def match_One_Nil)






lemma first_some_SomeD: "first_some f ks = Some r \<Longrightarrow> \<exists>k\<in>set ks. f k = Some r"
  by (induction ks) (auto split: option.splits)

lemma match_Item_SomeD:
  assumes "match_here (Item q cap p # rest) s = Some gs"
  shows "\<exists>k gs'. q_min q \<le> k \<and> k \<le> length (takeWhile p s) \<and>
     match_here rest (drop k s) = Some gs' \<and> gs = (if cap then take k s # gs' else gs')"
proof -
  define n where "n = length (takeWhile p s)"
  from assms have "first_some
      (\<lambda>k. map_option (\<lambda>gs. if cap then take k s # gs else gs) (match_here rest (drop k s)))
      (rev [q_min q ..< Suc (q_max q n)]) = Some gs"
    by (simp add: match_here.simps n_def Let_def del: upt_Suc)
  then obtain k where k: "k \<in> set (rev [q_min q ..< Suc (q_max q n)])"
    and m: "map_option (\<lambda>gs. if cap then take k s # gs else gs) (match_here rest (drop k s)) = Some gs"
    by (blast dest: first_some_SomeD)
  have "q_max q n \<le> n"
    by (cases q) (simp_all add: q_max_def)
  with k have "q_min q \<le> k" "k \<le> n" by auto
  with m show ?thesis unfolding n_def by auto
qed

lemma take_takeWhile_all: "k \<le> length (takeWhile p s) \<Longrightarrow> list_all p (take k s)"
proof (induction s arbitrary: k)
  case Nil
  then show ?case by simp
next
  case (Cons c s)
  then show ?case by (cases k) (auto split: if_splits)
qed

lemma re_search_SomeD: "re_search pat s = Some gs \<Longrightarrow> \<exists>i. match_here pat (drop i s) = Some gs"
proof (induction s)
  case Nil
  then show ?case by simp
next
  case (Cons c s)
  show ?case
  proof (cases "match_here pat (c # s)")
    case None
    with Cons obtain i where "match_here pat (drop i s) = Some gs" by auto
    then have "match_here pat (drop (Suc i) (c # s)) = Some gs" by simp
    then show ?thesis by blast
  next
    case (Some a)
    with Cons.prems have "match_here pat (drop 0 (c # s)) = Some gs" by simp
    then show ?thesis by blast
  qed
qed

lemma py_int_digits: "s \<noteq> [] \<Longrightarrow> list_all is_digit s \<Longrightarrow> \<exists>n. py_int s = Inr n"
  by (simp add: py_int_def)

lemma foldl_digits_nonneg:
  "list_all is_digit s \<Longrightarrow> 0 \<le> a \<Longrightarrow> 0 \<le> foldl (\<lambda>a c. 10 * a + digit_val c) a s"
proof (induction s arbitrary: a)
  case Nil
  then show ?case by simp
next
  case (Cons c s)
  from Cons.prems have "0 \<le> digit_val c"
    by (simp add: is_digit_def digit_val_def Let_def)
  with Cons.prems have "0 \<le> 10 * a + digit_val c" by simp
  with Cons show ?case by simp
qed

lemma py_int_nonneg: "py_int s = Inr n \<Longrightarrow> 0 \<le> n"
  using foldl_digits_nonneg [of s 0] by (auto simp: py_int_def split: if_splits)

lemma pages_groups:
  assumes "re_search pages_pattern t = Some gs"
  shows "\<exists>x y. gs = [x, y] \<and> y \<noteq> [] \<and> list_all is_digit y"
proof -
  from assms obtain i where "match_here pages_pattern (drop i t) = Some gs"
    by (blast dest: re_search_SomeD)
  from this [unfolded pages_pattern_def, THEN match_Item_SomeD]
  obtain u1 g1 x where g1: "match_here [Item Star False is_space,
       Item One False (is_char CHR ''/''), Item Star False is_space, Item Plus True is_digit]
       u1 = Some g1" and gs: "gs = x # g1"
    by auto
  from g1 [THEN match_Item_SomeD]
  obtain u2 where g2: "match_here [Item One False (is_char CHR ''/''),
       Item Star False is_space, Item Plus True is_digit] u2 = Some g1"
    by auto
  from g2 [THEN match_Item_SomeD]
  obtain u3 where g3: "match_here [Item Star False is_space, Item Plus True is_digit] u3 = Some g1"
    by auto
  from g3 [THEN match_Item_SomeD]
  obtain u where g4: "match_here [Item Plus True is_digit] u = Some g1"
    by auto
  from g4 [THEN match_Item_SomeD]
  obtain k5 where k5: "q_min Plus \<le> k5" "k5 \<le> length (takeWhile is_digit u)"
    and g5: "g1 = [take k5 u]"
    by (auto simp: match_here.simps(1))
  have "list_all is_digit (take k5 u)" using k5 by (intro take_takeWhile_all)
  moreover have "take k5 u \<noteq> []"
    using k5 by (auto simp: q_min_def)
  ultimately show ?thesis using gs g5 by simp
qed







subsection \<open>Running the browser operations\<close>

lemma bnd_Inr: "m w = (Inr a, w1) \<Longrightarrow> bnd m f w = f a w1"
  by (simp add: bnd_def)

lemma bnd_Inl: "m w = (Inl e, w1) \<Longrightarrow> bnd m f w = (Inl e, w1)"
  by (simp add: bnd_def)

lemma seq_Inr: "m w = (Inr a, w1) \<Longrightarrow> seq m k w = k w1"
  by (simp add: seq_def bnd_def)

lemma seq_Inl: "m w = (Inl e, w1) \<Longrightarrow> seq m k w = (Inl e, w1)"
  by (simp add: seq_def bnd_def)

lemma bnd_ret: "bnd (ret a) f w = f a w"
  by (simp add: bnd_def ret_def)

lemma seq_ret: "seq (ret a) k w = k w"
  by (simp add: seq_def bnd_def ret_def)

lemma bndE:
  assumes "bnd m f w = (Inr r, w')"
  obtains a w1 where "m w = (Inr a, w1)" and "f a w1 = (Inr r, w')"
  using assms by (auto simp: bnd_def split: prod.splits sum.splits)

lemma seqE:
  assumes "seq m k w = (Inr r, w')"
  obtains a w1 where "m w = (Inr a, w1)" and "k w1 = (Inr r, w')"
  using assms unfolding seq_def by (erule bndE)

lemma retE:
  assumes "ret a w = (Inr r, w')"
  obtains "r = a" and "w' = w"
  using assms by (simp add: ret_def)

lemma try_except_Inr: "m w = (Inr a, w1) \<Longrightarrow> try_except m h w = (Inr a, w1)"
  by (simp add: try_except_def)

lemma try_except_Inl: "m w = (Inl e, w1) \<Longrightarrow> try_except m h w = h w1"
  by (simp add: try_except_def)

lemma try_except_ret_total: "\<exists>r w'. try_except m (ret a) w = (Inr r, w')"
  by (cases "m w") (auto simp: try_except_def ret_def split: sum.splits)

subsection \<open>The income-range parser\<close>




subsection \<open>The page count\<close>

lemma read_total_pages_nonneg: "read_total_pages D w = (Inr (Some n), w') \<Longrightarrow> 0 \<le> n"
  unfolding read_total_pages_def search_text_def lift_def
  apply (auto elim!: bndE retE simp: raise_def split: option.splits list.splits)
  apply (erule py_int_nonneg)
  done

text \<open>
  C4 (as amended). \<open>_get_total_pages\<close> always returns an integer that is not negative.
  When the text of the pagination element matches the \<open>X / Y\<close> shape it returns Y, read
  from the leftmost match. It returns 1 when there is no pagination element, when the text
  does not match, and when finding the element or reading its text raises.
\<close>

theorem get_total_pages_result:
  "(\<exists>n w'. get_total_pages D w = (Inr n, w') \<and> 0 \<le> n) \<and>
   (page_query_selector D ''.small-screen'' w = (Inr (Some el), w1) \<and>
    el_text_content D el w1 = (Inr (Some t), w2) \<and>
    re_search pages_pattern t = Some gs \<longrightarrow>
      (\<exists>x y n. gs = [x, y] \<and> py_int y = Inr n \<and> get_total_pages D w = (Inr n, w2))) \<and>
   (page_query_selector D ''.small-screen'' w = (Inr None, w1) \<longrightarrow>
      get_total_pages D w = (Inr 1, w1)) \<and>
   (page_query_selector D ''.small-screen'' w = (Inr (Some el), w1) \<and>
    el_text_content D el w1 = (Inr (Some t), w2) \<and>
    re_search pages_pattern t = None \<longrightarrow>
      get_total_pages D w = (Inr 1, w2)) \<and>
   (page_query_selector D ''.small-screen'' w = (Inl e, w1) \<longrightarrow>
      get_total_pages D w = (Inr 1, w1)) \<and>
   (page_query_selector D ''.small-screen'' w = (Inr (Some el), w1) \<and>
    el_text_content D el w1 = (Inl e, w2) \<longrightarrow>
      get_total_pages D w = (Inr 1, w2))"
proof (intro conjI impI)
  show "\<exists>n w'. get_total_pages D w = (Inr n, w') \<and> 0 \<le> n"
  proof (cases "read_total_pages D w")
    case (Pair r w')
    show ?thesis
    proof (cases r)
      case (Inl e)
      with Pair show ?thesis
        by (simp add: get_total_pages_def bnd_def try_except_def ret_def)
    next
      case (Inr v)
      with Pair read_total_pages_nonneg [of D w _ w'] show ?thesis
        by (cases v) (simp_all add: get_total_pages_def bnd_def try_except_def ret_def)
    qed
  qed
next
  assume h: "page_query_selector D ''.small-screen'' w = (Inr (Some el), w1) \<and>
    el_text_content D el w1 = (Inr (Some t), w2) \<and> re_search pages_pattern t = Some gs"
  then obtain x y where gs: "gs = [x, y]" and y: "y \<noteq> []" "list_all is_digit y"
    using pages_groups by blast
  then obtain n where n: "py_int y = Inr n"
    using py_int_digits by blast
  have "get_total_pages D w = (Inr n, w2)"
    using h gs n
    by (simp add: get_total_pages_def read_total_pages_def search_text_def lift_def bnd_def
        try_except_def ret_def)
  with gs n show "\<exists>x y n. gs = [x, y] \<and> py_int y = Inr n \<and> get_total_pages D w = (Inr n, w2)"
    by blast
next
  assume "page_query_selector D ''.small-screen'' w = (Inr None, w1)"
  then show "get_total_pages D w = (Inr 1, w1)"
    by (simp add: get_total_pages_def read_total_pages_def bnd_def try_except_def ret_def)
next
  assume "page_query_selector D ''.small-screen'' w = (Inr (Some el), w1) \<and>
    el_text_content D el w1 = (Inr (Some t), w2) \<and> re_search pages_pattern t = None"
  then show "get_total_pages D w = (Inr 1, w2)"
    by (simp add: get_total_pages_def read_total_pages_def search_text_def bnd_def
        try_except_def ret_def)
next
  assume "page_query_selector D ''.small-screen'' w = (Inl e, w1)"
  then show "get_total_pages D w = (Inr 1, w1)"
    by (simp add: get_total_pages_def read_total_pages_def bnd_def try_except_def ret_def)
next
  assume "page_query_selector D ''.small-screen'' w = (Inr (Some el), w1) \<and>
    el_text_content D el w1 = (Inl e, w2)"
  then show "get_total_pages D w = (Inr 1, w2)"
    by (simp add: get_total_pages_def read_total_pages_def bnd_def try_except_def ret_def)
qed

theorem get_total_pages_result_witness:
  "re_search pages_pattern ''2 / 7'' = Some [''2'', ''7''] \<and>
   get_total_pages (pager_driver (Some ''2 / 7'')) () = (Inr 7, ()) \<and>
   get_total_pages blank_driver () = (Inr 1, ()) \<and>
   re_search pages_pattern ''page two'' = None \<and>
   get_total_pages (pager_driver (Some ''page two'')) () = (Inr 1, ()) \<and>
   get_total_pages (blank_driver\<lparr>page_query_selector := (\<lambda>s. raise PlaywrightTimeout)\<rparr>) () =
     (Inr 1, ()) \<and>
   get_total_pages (pager_driver None\<lparr>el_text_content := (\<lambda>e. raise PlaywrightError)\<rparr>) () =
     (Inr 1, ())"
proof -
  have q: "page_query_selector (pager_driver t) ''.small-screen'' () = (Inr (Some 0), ())" for t
    by (simp add: pager_driver_def blank_driver_def ret_def)
  have t: "el_text_content (pager_driver t) 0 () = (Inr t, ())" for t
    by (simp add: pager_driver_def blank_driver_def ret_def)
  have m1: "re_search pages_pattern ''2 / 7'' = Some [''2'', ''7'']"
    by code_simp
  have i1: "py_int ''7'' = Inr 7"
    by code_simp
  have c1: "get_total_pages (pager_driver (Some ''2 / 7'')) () = (Inr 7, ())"
    using get_total_pages_result [of "pager_driver (Some ''2 / 7'')" "()" 0 "()" "''2 / 7''" "()"
        "[''2'', ''7'']"] q t m1 i1
    by auto
  have q2: "page_query_selector blank_driver ''.small-screen'' () = (Inr None, ())"
    by (simp add: blank_driver_def ret_def)
  have c2: "get_total_pages blank_driver () = (Inr 1, ())"
    using get_total_pages_result [of blank_driver "()" _ "()"] q2 by blast
  have m3: "re_search pages_pattern ''page two'' = None"
    by code_simp
  have c3: "get_total_pages (pager_driver (Some ''page two'')) () = (Inr 1, ())"
    using get_total_pages_result [of "pager_driver (Some ''page two'')" "()" 0 "()"
        "''page two''" "()"] q t m3
    by blast
  have q4: "page_query_selector (blank_driver\<lparr>page_query_selector := (\<lambda>s. raise PlaywrightTimeout)\<rparr>)
      ''.small-screen'' () = (Inl PlaywrightTimeout, ())"
    by (simp add: raise_def)
  have c4: "get_total_pages (blank_driver\<lparr>page_query_selector := (\<lambda>s. raise PlaywrightTimeout)\<rparr>) ()
      = (Inr 1, ())"
    using get_total_pages_result [of "blank_driver\<lparr>page_query_selector := (\<lambda>s. raise PlaywrightTimeout)\<rparr>"
        "()" _ "()" _ _ _ PlaywrightTimeout] q4
    by blast
  have q5: "page_query_selector (pager_driver None\<lparr>el_text_content := (\<lambda>e. raise PlaywrightError)\<rparr>)
      ''.small-screen'' () = (Inr (Some 0), ())"
    by (simp add: pager_driver_def blank_driver_def ret_def)
  have t5: "el_text_content (pager_driver None\<lparr>el_text_content := (\<lambda>e. raise PlaywrightError)\<rparr>)
      0 () = (Inl PlaywrightError, ())"
    by (simp add: raise_def)
  have c5: "get_total_pages (pager_driver None\<lparr>el_text_content := (\<lambda>e. raise PlaywrightError)\<rparr>) ()
      = (Inr 1, ())"
    using get_total_pages_result [of "pager_driver None\<lparr>el_text_content := (\<lambda>e. raise PlaywrightError)\<rparr>"
        "()" 0 "()" _ "()" _ PlaywrightError] q5 t5
    by blast
  show ?thesis using m1 c1 c2 m3 c3 c4 c5 by simp
qed

theorem get_total_pages_positive_counterexample:
  "re_search pages_pattern ''1 / 0'' = Some [''1'', ''0''] \<and>
   get_total_pages (pager_driver (Some ''1 / 0'')) () = (Inr 0, ())"
  by code_simp

subsection \<open>The card extractor\<close>

lemma parse_lottery_card_total: "\<exists>r w'. parse_lottery_card D card' lt w = (Inr r, w')"
  unfolding parse_lottery_card_def by (rule try_except_ret_total)

lemma parse_cards_total: "\<exists>ls w'. parse_cards D cards lt acc w = (Inr ls, w')"
proof (induction cards arbitrary: acc w)
  case Nil
  then show ?case by (simp add: ret_def)
next
  case (Cons c cards)
  obtain r w1 where r: "parse_lottery_card D c lt w = (Inr r, w1)"
    using parse_lottery_card_total [of D c lt w] by auto
  show ?case using Cons.IH r
    by (cases r) (simp_all add: bnd_Inr)
qed

lemma body_SomeD:
  assumes "parse_lottery_card_body D card' lt w = (Inr (Some r), w')"
  shows "\<exists>w1 w2. read_lottery_id D card' w = (Inr (Some (l_id r)), w1) \<and>
     read_title D card' w1 = (Inr (l_title r), w2)"
  using assms unfolding parse_lottery_card_body_def
  by (auto elim!: bndE retE split: option.splits if_splits)

lemma body_no_id:
  assumes "parse_lottery_card_body D card' lt w = (Inr r, w')"
    and "read_lottery_id D card' w = (Inr None, w1)"
  shows "r = None"
  using assms unfolding parse_lottery_card_body_def
  by (auto elim!: bndE retE split: option.splits if_splits)

lemma card_no_id:
  assumes "read_lottery_id D card' w = (Inr None, w1)"
  shows "\<exists>w'. parse_lottery_card D card' lt w = (Inr None, w')"
proof (cases "parse_lottery_card_body D card' lt w")
  case (Pair x w')
  show ?thesis
  proof (cases x)
    case (Inl e)
    with Pair show ?thesis by (simp add: parse_lottery_card_def try_except_def ret_def)
  next
    case (Inr r)
    with Pair assms have "r = None" by (auto dest: body_no_id)
    with Pair Inr show ?thesis by (simp add: parse_lottery_card_def try_except_def)
  qed
qed

text \<open>
  C5. \<open>_parse_lottery_card\<close> never raises: an exception raised while the fields of a card
  are read makes the card yield \<open>None\<close>. A card with no image element, and a card whose
  image source has no \<open>/photos/<digits>.\<close> segment, yield \<open>None\<close>. A card that yields
  \<open>None\<close> is left out and the scan goes on with the remaining cards; the scan of the cards
  of a page never raises, and neither does \<open>_get_lotteries_from_current_page\<close> once the
  cards are found.
\<close>

theorem parse_lottery_card_isolated:
  "(\<exists>r w'. parse_lottery_card D card' lt w = (Inr r, w')) \<and>
   (parse_lottery_card_body D card' lt w = (Inl e, w1) \<longrightarrow>
      parse_lottery_card D card' lt w = (Inr None, w1)) \<and>
   (el_query_selector D card' ''img.card-image'' w = (Inr None, w1) \<longrightarrow>
      (\<exists>w'. parse_lottery_card D card' lt w = (Inr None, w'))) \<and>
   (el_query_selector D card' ''img.card-image'' w = (Inr (Some img), w1) \<and>
    el_get_attribute D img ''src'' w1 = (Inr (Some src), w2) \<and>
    re_search photo_pattern src = None \<longrightarrow>
      (\<exists>w'. parse_lottery_card D card' lt w = (Inr None, w'))) \<and>
   (parse_lottery_card D card' lt w = (Inr None, w1) \<longrightarrow>
      parse_cards D (card' # cards) lt acc w = parse_cards D cards lt acc w1) \<and>
   (\<exists>ls w'. parse_cards D cards lt acc w = (Inr ls, w')) \<and>
   (page_query_selector_all D ''app-lottery-grid-card'' (sleep D 1000 1000 w) = (Inr cards, w1) \<longrightarrow>
      (\<exists>ls w'. get_lotteries_from_current_page D lt w = (Inr ls, w')))"
proof (intro conjI impI)
  show "\<exists>r w'. parse_lottery_card D card' lt w = (Inr r, w')"
    by (rule parse_lottery_card_total)
next
  assume "parse_lottery_card_body D card' lt w = (Inl e, w1)"
  then show "parse_lottery_card D card' lt w = (Inr None, w1)"
    by (simp add: parse_lottery_card_def try_except_def ret_def)
next
  assume "el_query_selector D card' ''img.card-image'' w = (Inr None, w1)"
  then have "read_lottery_id D card' w = (Inr None, w1)"
    by (simp add: read_lottery_id_def bnd_def ret_def)
  then show "\<exists>w'. parse_lottery_card D card' lt w = (Inr None, w')"
    by (rule card_no_id)
next
  assume "el_query_selector D card' ''img.card-image'' w = (Inr (Some img), w1) \<and>
    el_get_attribute D img ''src'' w1 = (Inr (Some src), w2) \<and>
    re_search photo_pattern src = None"
  then have "read_lottery_id D card' w = (Inr None, w2)"
    by (simp add: read_lottery_id_def bnd_def ret_def)
  then show "\<exists>w'. parse_lottery_card D card' lt w = (Inr None, w')"
    by (rule card_no_id)
next
  assume "parse_lottery_card D card' lt w = (Inr None, w1)"
  then show "parse_cards D (card' # cards) lt acc w = parse_cards D cards lt acc w1"
    by (simp add: bnd_Inr)
next
  show "\<exists>ls w'. parse_cards D cards lt acc w = (Inr ls, w')"
    by (rule parse_cards_total)
next
  assume h: "page_query_selector_all D ''app-lottery-grid-card'' (sleep D 1000 1000 w) =
    (Inr cards, w1)"
  obtain ls w' where "parse_cards D cards lt [] w1 = (Inr ls, w')"
    using parse_cards_total [of D cards lt "[]" w1] by auto
  with h show "\<exists>ls w'. get_lotteries_from_current_page D lt w = (Inr ls, w')"
    by (simp add: get_lotteries_from_current_page_def seq_def bnd_def time_sleep_def ret_def)
qed

theorem parse_lottery_card_isolated_witness:
  "parse_lottery_card
     (card_driver (Some photo_src) (Some ''Tower A'')\<lparr>el_text_content := (\<lambda>e. raise PlaywrightError)\<rparr>)
     0 ''sale'' () = (Inr None, ()) \<and>
   parse_lottery_card (card_driver None (Some ''Tower A'')) 0 ''sale'' () = (Inr None, ()) \<and>
   parse_lottery_card (card_driver (Some ''/static/logo.png'') (Some ''Tower A'')) 0 ''sale'' ()
     = (Inr None, ()) \<and>
   parse_cards (card_driver None (Some ''Tower A'')) [0, 0] ''sale'' [] () = (Inr [], ()) \<and>
   get_lotteries_from_current_page (card_driver None (Some ''Tower A'')) ''sale'' () = (Inr [], ())"
proof -
  let ?R = "card_driver (Some photo_src) (Some ''Tower A'')\<lparr>el_text_content := (\<lambda>e. raise PlaywrightError)\<rparr>"
  let ?N = "card_driver None (Some ''Tower A'')"
  let ?L = "card_driver (Some ''/static/logo.png'') (Some ''Tower A'')"
  have b: "parse_lottery_card_body ?R 0 ''sale'' () = (Inl PlaywrightError, ())"
    by code_simp
  have c1: "parse_lottery_card ?R 0 ''sale'' () = (Inr None, ())"
    using parse_lottery_card_isolated [of ?R 0 "''sale''" "()" PlaywrightError "()"] b by blast
  have q2: "el_query_selector ?N 0 ''img.card-image'' () = (Inr None, ())"
    by code_simp
  have c2: "parse_lottery_card ?N 0 ''sale'' () = (Inr None, ())"
    using parse_lottery_card_isolated [of ?N 0 "''sale''" "()" _ "()"] q2 by auto
  have q3: "el_query_selector ?L 0 ''img.card-image'' () = (Inr (Some 1), ())"
    by code_simp
  have a3: "el_get_attribute ?L 1 ''src'' () = (Inr (Some ''/static/logo.png''), ())"
    by code_simp
  have m3: "re_search photo_pattern ''/static/logo.png'' = None"
    by code_simp
  have c3: "parse_lottery_card ?L 0 ''sale'' () = (Inr None, ())"
    using parse_lottery_card_isolated [of ?L 0 "''sale''" "()" _ "()" 1 "''/static/logo.png''" "()"]
      q3 a3 m3 by auto
  have c4: "parse_cards ?N [0, 0] ''sale'' [] () = (Inr [], ())"
    using parse_lottery_card_isolated [of ?N 0 "''sale''" "()" _ "()" _ _ _ "[0]" "[]"]
      parse_lottery_card_isolated [of ?N 0 "''sale''" "()" _ "()" _ _ _ "[]" "[]"] c2
    by (simp add: ret_def)
  have q5: "page_query_selector_all ?N ''app-lottery-grid-card'' (sleep ?N 1000 1000 ()) =
      (Inr [0], ())"
    by code_simp
  obtain ls where "get_lotteries_from_current_page ?N ''sale'' () = (Inr ls, ())"
    using parse_lottery_card_isolated
        [of ?N 0 "''sale''" "()" PlaywrightError "()" 0 "[]" "()" "[0]" "[]"] q5
    by auto
  moreover have "fst (get_lotteries_from_current_page ?N ''sale'' ()) = Inr []"
    by code_simp
  ultimately have c5: "get_lotteries_from_current_page ?N ''sale'' () = (Inr [], ())"
    by simp
  show ?thesis using c1 c2 c3 c4 c5 by simp
qed

text \<open>
  C10 (as amended). When the card extractor returns a record and the card has no title
  element, the title of the record is the placeholder \<open>Unknown\<close>, with no index. When the
  title element is there, the title of the record is its text content, stripped.
\<close>

theorem parse_lottery_card_title:
  assumes "parse_lottery_card D card' lt w = (Inr (Some r), w')"
  shows "\<exists>w1. read_lottery_id D card' w = (Inr (Some (l_id r)), w1) \<and>
     (\<forall>w2. el_query_selector D card' ''.title.title-h3'' w1 = (Inr None, w2) \<longrightarrow>
        l_title r = ''Unknown'') \<and>
     (\<forall>t w2 s w3. el_query_selector D card' ''.title.title-h3'' w1 = (Inr (Some t), w2) \<and>
        el_text_content D t w2 = (Inr (Some s), w3) \<longrightarrow> l_title r = strip s)"
proof -
  from assms have "parse_lottery_card_body D card' lt w = (Inr (Some r), w')"
    by (auto simp: parse_lottery_card_def try_except_def ret_def split: prod.splits sum.splits)
  then obtain w1 w2 where id: "read_lottery_id D card' w = (Inr (Some (l_id r)), w1)"
    and t: "read_title D card' w1 = (Inr (l_title r), w2)"
    using body_SomeD [of D card' lt w r w'] by auto
  from t have "\<forall>w2. el_query_selector D card' ''.title.title-h3'' w1 = (Inr None, w2) \<longrightarrow>
        l_title r = ''Unknown''"
    by (auto simp: read_title_def bnd_def ret_def)
  moreover from t have "\<forall>t w2 s w3.
        el_query_selector D card' ''.title.title-h3'' w1 = (Inr (Some t), w2) \<and>
        el_text_content D t w2 = (Inr (Some s), w3) \<longrightarrow> l_title r = strip s"
    by (auto simp: read_title_def text_strip_def bnd_def ret_def)
  ultimately show ?thesis using id by blast
qed

theorem parse_lottery_card_title_witness:
  "el_query_selector (card_driver (Some photo_src) None) 0 ''.title.title-h3'' () =
     (Inr None, ()) \<and>
   map_sum id (map_option l_title)
     (fst (parse_lottery_card (card_driver (Some photo_src) None) 0 ''sale'' ())) =
     Inr (Some ''Unknown'') \<and>
   el_query_selector (card_driver (Some photo_src) (Some '' Tower  A '')) 0 ''.title.title-h3'' () =
     (Inr (Some 2), ()) \<and>
   el_text_content (card_driver (Some photo_src) (Some '' Tower  A '')) 2 () =
     (Inr (Some '' Tower  A ''), ()) \<and>
   map_sum id (map_option l_title)
     (fst (parse_lottery_card (card_driver (Some photo_src) (Some '' Tower  A '')) 0 ''sale'' ())) =
     Inr (Some (strip '' Tower  A '')) \<and>
   strip '' Tower  A '' = ''Tower  A''"
proof -
  let ?U = "card_driver (Some photo_src) None"
  let ?T = "card_driver (Some photo_src) (Some '' Tower  A '')"
  obtain ru where pu: "parse_lottery_card ?U 0 ''sale'' () = (Inr (Some ru), ())"
  proof
    show "parse_lottery_card ?U 0 ''sale'' () =
      (Inr (Some \<lparr>l_id = ''34926806'', l_title = ''Unknown'', l_lottery_type = ''sale'',
         l_location = None, l_units_available = None, l_days_until_closing = None,
         l_min_income = None, l_max_income = None, l_is_applied = False,
         l_url = Some ''https://housingconnect.nyc.gov/PublicWeb/lottery-details/34926806''\<rparr>),
       ())"
      by code_simp
  qed
  have qu: "el_query_selector ?U 0 ''.title.title-h3'' () = (Inr None, ())"
    by code_simp
  have tu: "l_title ru = ''Unknown''"
    using parse_lottery_card_title [OF pu] qu by auto
  obtain rt where pt: "parse_lottery_card ?T 0 ''sale'' () = (Inr (Some rt), ())"
  proof
    show "parse_lottery_card ?T 0 ''sale'' () =
      (Inr (Some \<lparr>l_id = ''34926806'', l_title = ''Tower  A'', l_lottery_type = ''sale'',
         l_location = None, l_units_available = None, l_days_until_closing = None,
         l_min_income = None, l_max_income = None, l_is_applied = False,
         l_url = Some ''https://housingconnect.nyc.gov/PublicWeb/lottery-details/34926806''\<rparr>),
       ())"
      by code_simp
  qed
  have qt: "el_query_selector ?T 0 ''.title.title-h3'' () = (Inr (Some 2), ())"
    by code_simp
  have tt: "el_text_content ?T 2 () = (Inr (Some '' Tower  A ''), ())"
    by code_simp
  have ttl: "l_title rt = strip '' Tower  A ''"
    using parse_lottery_card_title [OF pt] qt tt by auto
  have st: "strip '' Tower  A '' = ''Tower  A''"
    by code_simp
  show ?thesis
    using qu qt tt st by (simp add: pu pt tu ttl)
qed

theorem parse_lottery_card_title_counterexample:
  "el_query_selector (card_driver (Some photo_src) None) 0 ''.title.title-h3'' () =
     (Inr None, ()) \<and>
   parse_lottery_card (card_driver (Some photo_src) None) 0 ''sale'' () =
     (Inr (Some \<lparr>l_id = ''34926806'', l_title = ''Unknown'', l_lottery_type = ''sale'',
        l_location = None, l_units_available = None, l_days_until_closing = None,
        l_min_income = None, l_max_income = None, l_is_applied = False,
        l_url = Some ''https://housingconnect.nyc.gov/PublicWeb/lottery-details/34926806''\<rparr>),
      ()) \<and>
   ''Unknown'' \<noteq> ''Unknown_'' @ py_str 0"
  by code_simp

subsection \<open>The listing collector\<close>

lemma add_new_append:
  "add_new (xs @ ys) st = add_new ys (add_new xs st)"
  by (induction xs st rule: add_new.induct) auto

lemma first_seen_set: "set (first_seen xs) \<subseteq> set xs"
  by (induction xs rule: first_seen.induct) auto

lemma filter_ne_commute:
  "filter (\<lambda>y. l_id y \<noteq> b) (filter (\<lambda>y. l_id y \<noteq> a) xs) =
   filter (\<lambda>y. l_id y \<noteq> a) (filter (\<lambda>y. l_id y \<noteq> b) xs)"
  by (induction xs) auto

lemma first_seen_filter:
  "first_seen (filter (\<lambda>y. l_id y \<noteq> a) xs) = filter (\<lambda>y. l_id y \<noteq> a) (first_seen xs)"
proof (induction xs rule: first_seen.induct)
  case 1
  then show ?case by simp
next
  case (2 x xs)
  let ?ys = "filter (\<lambda>y. l_id y \<noteq> l_id x) xs"
  have IH: "first_seen (filter (\<lambda>y. l_id y \<noteq> a) ?ys) = filter (\<lambda>y. l_id y \<noteq> a) (first_seen ?ys)"
    by (rule 2)
  show ?case
  proof (cases "l_id x = a")
    case True
    have "\<forall>y\<in>set (first_seen ?ys). l_id y \<noteq> a"
      using first_seen_set [of ?ys] True by auto
    then have id: "filter (\<lambda>y. l_id y \<noteq> a) (first_seen ?ys) = first_seen ?ys"
      by (simp only: filter_id_conv)
    have "first_seen (filter (\<lambda>y. l_id y \<noteq> a) (x # xs)) = first_seen (filter (\<lambda>y. l_id y \<noteq> a) xs)"
      using True by simp
    also have "\<dots> = first_seen ?ys" using True by simp
    also have "\<dots> = filter (\<lambda>y. l_id y \<noteq> a) (x # first_seen ?ys)"
      using True id by simp
    finally show ?thesis by (simp only: first_seen.simps)
  next
    case False
    have "first_seen (filter (\<lambda>y. l_id y \<noteq> a) (x # xs)) =
        x # first_seen (filter (\<lambda>y. l_id y \<noteq> l_id x) (filter (\<lambda>y. l_id y \<noteq> a) xs))"
      using False by (simp del: filter_filter)
    also have "\<dots> = x # first_seen (filter (\<lambda>y. l_id y \<noteq> a) ?ys)"
      by (simp only: filter_ne_commute)
    also have "\<dots> = x # filter (\<lambda>y. l_id y \<noteq> a) (first_seen ?ys)"
      by (simp only: IH)
    also have "\<dots> = filter (\<lambda>y. l_id y \<noteq> a) (x # first_seen ?ys)"
      using False by simp
    finally show ?thesis by (simp only: first_seen.simps)
  qed
qed

lemma add_new_first_seen:
  "add_new xs (acc, seen) =
     (acc @ first_seen (filter (\<lambda>y. l_id y \<notin> seen) xs), seen \<union> l_id ` set xs)"
proof (induction xs arbitrary: acc seen)
  case Nil
  then show ?case by simp
next
  case (Cons x xs)
  show ?case
  proof (cases "l_id x \<in> seen")
    case True
    then show ?thesis using Cons.IH [of acc seen] by auto
  next
    case False
    have f: "filter (\<lambda>y. l_id y \<notin> insert (l_id x) seen) xs =
        filter (\<lambda>y. l_id y \<noteq> l_id x) (filter (\<lambda>y. l_id y \<notin> seen) xs)"
      by (induction xs) auto
    have "add_new xs (acc @ [x], insert (l_id x) seen) =
        ((acc @ [x]) @ first_seen (filter (\<lambda>y. l_id y \<noteq> l_id x) (filter (\<lambda>y. l_id y \<notin> seen) xs)),
         insert (l_id x) seen \<union> l_id ` set xs)"
      using Cons.IH [of "acc @ [x]" "insert (l_id x) seen"] by (simp only: f)
    with False show ?thesis by (simp del: filter_filter)
  qed
qed

lemma first_seen_distinct: "distinct (map l_id (first_seen xs))"
proof (induction xs rule: first_seen.induct)
  case 1
  then show ?case by simp
next
  case (2 x xs)
  have "l_id x \<notin> l_id ` set (first_seen (filter (\<lambda>y. l_id y \<noteq> l_id x) xs))"
    using first_seen_set [of "filter (\<lambda>y. l_id y \<noteq> l_id x) xs"] by auto
  with 2 show ?case by simp
qed

lemma fold_add_new:
  "fold add_new pages (acc, seen) =
     (acc @ first_seen (filter (\<lambda>y. l_id y \<notin> seen) (concat pages)),
      seen \<union> l_id ` set (concat pages))"
proof (induction pages arbitrary: acc seen)
  case Nil
  then show ?case by simp
next
  case (Cons p pages)
  have "add_new (p @ concat pages) (acc, seen) = add_new (concat pages) (add_new p (acc, seen))"
    by (rule add_new_append)
  then show ?case
    using Cons.IH [of "acc @ first_seen (filter (\<lambda>y. l_id y \<notin> seen) p)" "seen \<union> l_id ` set p"]
    by (simp add: add_new_first_seen)
qed

lemma collect_pages_results:
  "collect_pages D lt pns st w =
     (case page_results D lt pns w of
        (Inl e, w') \<Rightarrow> (Inl e, w')
      | (Inr pages, w') \<Rightarrow> (Inr (fst (fold add_new pages st)), w'))"
proof (induction pns arbitrary: st w)
  case Nil
  then show ?case by (cases st) (simp add: ret_def)
next
  case (Cons pn pns)
  obtain all seen where st: "st = (all, seen)" by (cases st)
  let ?A = "if pn > 1 then go_to_page D pn else ret True"
  obtain a w1 where a: "?A w = (a, w1)" by (cases "?A w")
  show ?case
  proof (cases a)
    case (Inl e)
    with a show ?thesis unfolding st by (simp add: seq_Inl)
  next
    case (Inr b)
    obtain g w2 where g: "get_lotteries_from_current_page D lt w1 = (g, w2)"
      by (cases "get_lotteries_from_current_page D lt w1")
    show ?thesis
    proof (cases g)
      case (Inl e)
      with a Inr g show ?thesis unfolding st by (simp add: seq_Inr bnd_Inl)
    next
      case pl: (Inr pl)
      obtain r w3 where r: "page_results D lt pns w2 = (r, w3)"
        by (cases "page_results D lt pns w2")
      show ?thesis
      proof (cases r)
        case (Inl e)
        with a Inr g pl r Cons.IH [of "add_new pl (all, seen)" w2] show ?thesis
          unfolding st by (simp add: seq_Inr bnd_Inr bnd_Inl)
      next
        case pages: (Inr pages)
        with a Inr g pl r Cons.IH [of "add_new pl (all, seen)" w2] show ?thesis
          unfolding st by (simp add: seq_Inr bnd_Inr ret_def)
      qed
    qed
  qed
qed

lemma first_seen_ids: "l_id ` set (first_seen xs) = l_id ` set xs"
proof (induction xs rule: first_seen.induct)
  case 1
  then show ?case by simp
next
  case (2 x xs)
  have "l_id ` set xs \<subseteq> insert (l_id x) (l_id ` set (filter (\<lambda>y. l_id y \<noteq> l_id x) xs))"
    by auto
  moreover have "l_id ` set (filter (\<lambda>y. l_id y \<noteq> l_id x) xs) \<subseteq> l_id ` set xs"
    by auto
  ultimately show ?case using 2 by auto
qed

lemma find_filter:
  "(\<And>y. P y \<Longrightarrow> Q y) \<Longrightarrow> find P (filter Q xs) = find P xs"
  by (induction xs) auto

lemma first_seen_find:
  "x \<in> set (first_seen xs) \<Longrightarrow> find (\<lambda>y. l_id y = l_id x) xs = Some x"
proof (induction xs rule: first_seen.induct)
  case 1
  then show ?case by simp
next
  case (2 a xs)
  show ?case
  proof (cases "x = a")
    case True
    then show ?thesis by simp
  next
    case False
    let ?ys = "filter (\<lambda>y. l_id y \<noteq> l_id a) xs"
    from False 2 have in_ys: "x \<in> set (first_seen ?ys)" by simp
    then have ne: "l_id x \<noteq> l_id a"
      using first_seen_set [of ?ys] by auto
    have "find (\<lambda>y. l_id y = l_id x) ?ys = Some x"
      using in_ys by (rule "2.IH")
    moreover have "find (\<lambda>y. l_id y = l_id x) ?ys = find (\<lambda>y. l_id y = l_id x) xs"
      using ne by (intro find_filter) simp
    ultimately show ?thesis using ne by simp
  qed
qed

text \<open>
  C3. When \<open>get_lottery_ids\<close> returns, no two records of the list have the same id, and
  the list is the concatenation of the card-parse results of the pages with every record
  kept where its id is first seen and the later records with that id dropped: every id
  that a page produced is there, and each record is the first one with its id.
\<close>

theorem get_lottery_ids_first_seen:
  assumes "get_lottery_ids D lt w = (Inr ls, w')"
  shows "distinct (map l_id ls) \<and>
    (\<exists>b w1 n w2 pages.
       navigate_to_lotteries D lt w = (Inr b, w1) \<and>
       get_total_pages D w1 = (Inr n, w2) \<and>
       page_results D lt [1 .. n] w2 = (Inr pages, w') \<and>
       ls = first_seen (concat pages) \<and>
       l_id ` set ls = l_id ` set (concat pages) \<and>
       list_all (\<lambda>x. find (\<lambda>y. l_id y = l_id x) (concat pages) = Some x) ls)"
proof -
  from assms obtain b w1 n w2
    where nav: "navigate_to_lotteries D lt w = (Inr b, w1)"
      and tot: "get_total_pages D w1 = (Inr n, w2)"
      and col: "collect_pages D lt [1 .. n] ([], {}) w2 = (Inr ls, w')"
    unfolding get_lottery_ids_def by (elim seqE bndE)
  from col obtain pages where pr: "page_results D lt [1 .. n] w2 = (Inr pages, w')"
    and ls: "ls = fst (fold add_new pages ([], {}))"
    unfolding collect_pages_results by (auto split: prod.splits sum.splits)
  from ls have fs: "ls = first_seen (concat pages)"
    by (simp add: fold_add_new)
  have "list_all (\<lambda>x. find (\<lambda>y. l_id y = l_id x) (concat pages) = Some x) ls"
    unfolding fs list_all_iff using first_seen_find by blast
  with nav tot pr fs show ?thesis
    using first_seen_distinct [of "concat pages"] first_seen_ids [of "concat pages"]
    by blast
qed

theorem get_lottery_ids_first_seen_witness:
  "get_lottery_ids two_page_driver ''rental'' 1 =
     (Inr [listed ''111'', listed ''112'', listed ''113''], 2) \<and>
   page_results two_page_driver ''rental'' [1 .. 2] 1 =
     (Inr [[listed ''111'', listed ''112''], [listed ''112'', listed ''113'']], 2) \<and>
   distinct (map l_id [listed ''111'', listed ''112'', listed ''113''])"
proof -
  have g: "get_lottery_ids two_page_driver ''rental'' 1 =
      (Inr [listed ''111'', listed ''112'', listed ''113''], 2)"
    by code_simp
  have p: "page_results two_page_driver ''rental'' [1 .. 2] 1 =
      (Inr [[listed ''111'', listed ''112''], [listed ''112'', listed ''113'']], 2)"
    by code_simp
  from get_lottery_ids_first_seen [OF g]
  have "distinct (map l_id [listed ''111'', listed ''112'', listed ''113''])"
    by (rule conjunct1)
  with g p show ?thesis by simp
qed

subsection \<open>Login\<close>











subsection \<open>The application workflow\<close>

lemma confirm_wf:
  assumes "confirm D result w = (Inr r, w')" "\<not> already_applied result" "eligible result"
  shows "reasons r \<le> 1 \<and> message r \<noteq> [] \<and> eligible r"
  using assms unfolding confirm_def get_url_def
  by (auto elim!: bndE retE simp: reasons_def split: option.splits if_splits)

lemma submit_wf:
  assumes "submit_application D lt result w = (Inr r, w')"
    and "\<not> success result" and "\<not> already_applied result" and "eligible result"
  shows "reasons r \<le> 1 \<and> message r \<noteq> [] \<and> eligible r"
proof -
  from assms(1) obtain apply_btn w1 where f: "find_apply_btn D w = (Inr apply_btn, w1)"
    and k: "(case apply_btn of
         None \<Rightarrow> ret (result\<lparr>message := ''Could not find Apply Now button''\<rparr>)
       | Some a \<Rightarrow>
           seq (el_click D a)
          (seq (time_sleep D 2000 2000)
          (seq (confirm_dialog D)
          (bnd (confirm D result) (\<lambda>result.
           seq (return_to_list D lt) (ret result)))))) w1 = (Inr r, w')"
    unfolding submit_application_def by (erule bndE)
  show ?thesis
  proof (cases apply_btn)
    case None
    with k assms(2-4) show ?thesis
      by (auto elim!: retE simp: reasons_def)
  next
    case (Some a)
    with k obtain w2 w3 where c: "confirm D result w2 = (Inr r, w3)"
      by (auto elim!: seqE bndE retE)
    show ?thesis using confirm_wf [OF c assms(3,4)] .
  qed
qed

lemma confirm_cases:
  assumes "confirm D result w = (Inr r, w')"
  shows "r = result\<lparr>success := True, message := ''Successfully applied!''\<rparr> \<or>
     r = result\<lparr>message := ''Redirected to login - not logged in''\<rparr> \<or>
     r = result\<lparr>success := True, message := ''Application submitted (unverified)''\<rparr>"
  using assms unfolding confirm_def get_url_def
  by (auto elim!: bndE retE split: option.splits if_splits)

lemma submit_cases:
  assumes "submit_application D lt result w = (Inr r, w')"
  shows "r = result\<lparr>message := ''Could not find Apply Now button''\<rparr> \<or>
     r = result\<lparr>success := True, message := ''Successfully applied!''\<rparr> \<or>
     r = result\<lparr>message := ''Redirected to login - not logged in''\<rparr> \<or>
     r = result\<lparr>success := True, message := ''Application submitted (unverified)''\<rparr>"
proof -
  from assms consider
      (none) "r = result\<lparr>message := ''Could not find Apply Now button''\<rparr>"
    | (conf) w2 w3 where "confirm D result w2 = (Inr r, w3)"
    unfolding submit_application_def
    by (auto elim!: seqE bndE retE split: option.splits)
  then show ?thesis
  proof cases
    case none
    then show ?thesis by simp
  next
    case conf
    from confirm_cases [OF this] show ?thesis by blast
  qed
qed

lemma check_cases:
  assumes "check_eligibility D b lt result w = (Inr r, w')"
  obtains (not_eligible) mn mx where "r = result\<lparr>eligible := False,
        message := ''Not eligible: $'' @ fmt_commas (annual_income b) @
          '' outside $'' @ fmt_commas mn @ '' - $'' @ fmt_commas mx\<rparr>"
    | (submit) w1 where "submit_application D lt result w1 = (Inr r, w')"
  using assms unfolding check_eligibility_def lift_def
  by (auto elim!: bndE retE split: option.splits if_splits prod.splits)

lemma open_detail_cases:
  assumes "open_detail D b lt c result w = (Inr r, w')"
  obtains (no_button) "r = result\<lparr>message := ''Could not find View Details button''\<rparr>"
    | (applied) "r = result\<lparr>already_applied := True, message := ''Already applied''\<rparr>"
    | (check) w1 where "check_eligibility D b lt result w1 = (Inr r, w')"
  using assms unfolding open_detail_def
  by (auto elim!: seqE bndE retE split: option.splits if_splits)

lemma apply_cases:
  assumes "apply_to_lottery_by_click D b card_index lt w = (Inr r, w')"
  obtains (range) "r = initial_result\<lparr>message :=
        ''Card index '' @ py_str card_index @ '' out of range''\<rparr>"
    | (applied) t where "r = initial_result\<lparr>title := t, already_applied := True,
        message := ''Already applied''\<rparr>"
    | (detail) c t w1 where "open_detail D b lt c (initial_result\<lparr>title := t\<rparr>) w1 = (Inr r, w')"
  using assms unfolding apply_to_lottery_by_click_def
  by (auto elim!: seqE bndE retE split: option.splits if_splits)

lemma outcome_shapes:
  assumes "apply_to_lottery_by_click D b card_index lt w = (Inr r, w')"
  shows "r = \<lparr>success = False,
         message = ''Card index '' @ py_str card_index @ '' out of range'',
         already_applied = False, eligible = True, title = ''Unknown''\<rparr> \<or>
    (\<exists>t. r = \<lparr>success = False, message = ''Already applied'',
             already_applied = True, eligible = True, title = t\<rparr> \<or>
         r = \<lparr>success = False, message = ''Could not find View Details button'',
             already_applied = False, eligible = True, title = t\<rparr> \<or>
         (\<exists>mn mx. r = \<lparr>success = False,
             message = ''Not eligible: $'' @ fmt_commas (annual_income b) @
               '' outside $'' @ fmt_commas mn @ '' - $'' @ fmt_commas mx,
             already_applied = False, eligible = False, title = t\<rparr>) \<or>
         r = \<lparr>success = False, message = ''Could not find Apply Now button'',
             already_applied = False, eligible = True, title = t\<rparr> \<or>
         r = \<lparr>success = True, message = ''Successfully applied!'',
             already_applied = False, eligible = True, title = t\<rparr> \<or>
         r = \<lparr>success = False, message = ''Redirected to login - not logged in'',
             already_applied = False, eligible = True, title = t\<rparr> \<or>
         r = \<lparr>success = True, message = ''Application submitted (unverified)'',
             already_applied = False, eligible = True, title = t\<rparr>)"
  using assms
proof (cases rule: apply_cases)
  case range
  then show ?thesis by (simp add: initial_result_def)
next
  case (applied t)
  then show ?thesis by (simp add: initial_result_def)
next
  case (detail c t w1)
  then show ?thesis
  proof (cases rule: open_detail_cases)
    case no_button
    then show ?thesis by (simp add: initial_result_def)
  next
    case applied
    then show ?thesis by (simp add: initial_result_def)
  next
    case (check w2)
    then show ?thesis
    proof (cases rule: check_cases)
      case (not_eligible mn mx)
      show ?thesis
        by (rule disjI2, rule exI [of _ t], rule disjI2, rule disjI2, rule disjI1,
            rule exI [of _ mn], rule exI [of _ mx])
           (simp add: not_eligible initial_result_def)
    next
      case (submit w3)
      from submit_cases [OF this] show ?thesis
        by (elim disjE) (simp_all add: initial_result_def)
    qed
  qed
qed

lemma no_view_details:
  assumes "ensure_list_view D lt w = (Inr u, w1)"
    and "page_query_selector_all D ''app-lottery-grid-card'' w1 = (Inr cards, w2)"
    and "card_index < int (length cards)"
    and "py_index cards card_index = Inr c"
    and "workflow_title D c w2 = (Inr ttl, w3)"
    and "card_applied D c w3 = (Inr False, w4)"
    and "el_hover D c w4 = (Inr u1, w5)"
    and \<open>el_query_selector D c ''button:has-text("View Details")'' (sleep D 500 500 w5) =
      (Inr None, w6)\<close>
  shows "apply_to_lottery_by_click D b card_index lt w =
    (Inr \<lparr>success = False, message = ''Could not find View Details button'',
       already_applied = False, eligible = True, title = ttl\<rparr>, w6)"
  using assms
  by (simp add: apply_to_lottery_by_click_def open_detail_def seq_def bnd_def lift_def
      time_sleep_def ret_def initial_result_def)

lemma no_apply_now:
  assumes "find_apply_btn D w = (Inr None, w1)"
  shows "submit_application D lt (initial_result\<lparr>title := ttl\<rparr>) w =
    (Inr \<lparr>success = False, message = ''Could not find Apply Now button'',
       already_applied = False, eligible = True, title = ttl\<rparr>, w1)"
  using assms
  by (simp add: submit_application_def bnd_def ret_def initial_result_def)

lemma redirected:
  assumes "find_apply_btn D w = (Inr (Some a), w1)"
    and "el_click D a w1 = (Inr u1, w2)"
    and "confirm_dialog D (sleep D 2000 2000 w2) = (Inr u2, w3)"
    and \<open>page_query_selector D ''button.btn-grey-90:has-text("Applied")'' w3 = (Inr None, w4)\<close>
    and "py_in ''login'' (py_lower (page_url D w4)) \<or>
         py_in ''id4/account'' (py_lower (page_url D w4))"
    and "return_to_list D lt w4 = (Inr u3, w5)"
  shows "submit_application D lt (initial_result\<lparr>title := ttl\<rparr>) w =
    (Inr \<lparr>success = False, message = ''Redirected to login - not logged in'',
       already_applied = False, eligible = True, title = ttl\<rparr>, w5)"
  using assms
  by (simp add: submit_application_def confirm_def get_url_def seq_def bnd_def
      time_sleep_def ret_def initial_result_def)

text \<open>
  C9 (as amended). Every outcome that \<open>apply_to_lottery_by_click\<close> returns gives at most
  one of the three terminal reasons (success, already applied, not eligible), its message
  is not empty, and it is one of eight outcomes: four failures, which give no reason at all
  (not successful, not already applied, eligible: card index out of range, View Details
  button not found, Apply Now button not found, redirected to login), the already-applied
  outcome, the not-eligible outcome, and two successes (applied; submitted, unverified).
  The failures are reported in the situations they name: when the card has no View Details
  button; when the workflow has come to the submission and no Apply Now link is found; when,
  after the click on Apply Now and the confirmation dialog, no Applied button is found and
  the location is a login page.
\<close>

theorem outcome_reasons:
  \<open>(apply_to_lottery_by_click D b card_index lt w = (Inr r, w') \<longrightarrow>
      reasons r \<le> 1 \<and> message r \<noteq> [] \<and>
      (r = \<lparr>success = False,
         message = ''Card index '' @ py_str card_index @ '' out of range'',
         already_applied = False, eligible = True, title = ''Unknown''\<rparr> \<or>
       (\<exists>t. r = \<lparr>success = False, message = ''Already applied'',
               already_applied = True, eligible = True, title = t\<rparr> \<or>
            r = \<lparr>success = False, message = ''Could not find View Details button'',
               already_applied = False, eligible = True, title = t\<rparr> \<or>
            (\<exists>mn mx. r = \<lparr>success = False,
               message = ''Not eligible: $'' @ fmt_commas (annual_income b) @
                 '' outside $'' @ fmt_commas mn @ '' - $'' @ fmt_commas mx,
               already_applied = False, eligible = False, title = t\<rparr>) \<or>
            r = \<lparr>success = False, message = ''Could not find Apply Now button'',
               already_applied = False, eligible = True, title = t\<rparr> \<or>
            r = \<lparr>success = True, message = ''Successfully applied!'',
               already_applied = False, eligible = True, title = t\<rparr> \<or>
            r = \<lparr>success = False, message = ''Redirected to login - not logged in'',
               already_applied = False, eligible = True, title = t\<rparr> \<or>
            r = \<lparr>success = True, message = ''Application submitted (unverified)'',
               already_applied = False, eligible = True, title = t\<rparr>))) \<and>
   (ensure_list_view D lt w = (Inr u, w1) \<and>
    page_query_selector_all D ''app-lottery-grid-card'' w1 = (Inr cards, w2) \<and>
    card_index < int (length cards) \<and>
    py_index cards card_index = Inr c \<and>
    workflow_title D c w2 = (Inr ttl, w3) \<and>
    card_applied D c w3 = (Inr False, w4) \<and>
    el_hover D c w4 = (Inr u1, w5) \<and>
    el_query_selector D c ''button:has-text("View Details")'' (sleep D 500 500 w5) =
      (Inr None, w6) \<longrightarrow>
    apply_to_lottery_by_click D b card_index lt w =
      (Inr \<lparr>success = False, message = ''Could not find View Details button'',
         already_applied = False, eligible = True, title = ttl\<rparr>, w6)) \<and>
   (apply_to_lottery_by_click D b card_index lt w =
      submit_application D lt (initial_result\<lparr>title := ttl\<rparr>) v \<and>
    find_apply_btn D v = (Inr None, v1) \<longrightarrow>
    apply_to_lottery_by_click D b card_index lt w =
      (Inr \<lparr>success = False, message = ''Could not find Apply Now button'',
         already_applied = False, eligible = True, title = ttl\<rparr>, v1)) \<and>
   (apply_to_lottery_by_click D b card_index lt w =
      submit_application D lt (initial_result\<lparr>title := ttl\<rparr>) v \<and>
    find_apply_btn D v = (Inr (Some a), v1) \<and>
    el_click D a v1 = (Inr u2, v2) \<and>
    confirm_dialog D (sleep D 2000 2000 v2) = (Inr u3, v3) \<and>
    page_query_selector D ''button.btn-grey-90:has-text("Applied")'' v3 = (Inr None, v4) \<and>
    (py_in ''login'' (py_lower (page_url D v4)) \<or>
     py_in ''id4/account'' (py_lower (page_url D v4))) \<and>
    return_to_list D lt v4 = (Inr u4, v5) \<longrightarrow>
    apply_to_lottery_by_click D b card_index lt w =
      (Inr \<lparr>success = False, message = ''Redirected to login - not logged in'',
         already_applied = False, eligible = True, title = ttl\<rparr>, v5))\<close>
proof (intro conjI impI)
  assume a: "apply_to_lottery_by_click D b card_index lt w = (Inr r, w')"
  note s = outcome_shapes [OF a]
  from s show "reasons r \<le> 1"
    by (elim disjE exE) (simp_all add: reasons_def)
  from s show "message r \<noteq> []"
    by (elim disjE exE) simp_all
  from s show "r = \<lparr>success = False,
         message = ''Card index '' @ py_str card_index @ '' out of range'',
         already_applied = False, eligible = True, title = ''Unknown''\<rparr> \<or>
       (\<exists>t. r = \<lparr>success = False, message = ''Already applied'',
               already_applied = True, eligible = True, title = t\<rparr> \<or>
            r = \<lparr>success = False, message = ''Could not find View Details button'',
               already_applied = False, eligible = True, title = t\<rparr> \<or>
            (\<exists>mn mx. r = \<lparr>success = False,
               message = ''Not eligible: $'' @ fmt_commas (annual_income b) @
                 '' outside $'' @ fmt_commas mn @ '' - $'' @ fmt_commas mx,
               already_applied = False, eligible = False, title = t\<rparr>) \<or>
            r = \<lparr>success = False, message = ''Could not find Apply Now button'',
               already_applied = False, eligible = True, title = t\<rparr> \<or>
            r = \<lparr>success = True, message = ''Successfully applied!'',
               already_applied = False, eligible = True, title = t\<rparr> \<or>
            r = \<lparr>success = False, message = ''Redirected to login - not logged in'',
               already_applied = False, eligible = True, title = t\<rparr> \<or>
            r = \<lparr>success = True, message = ''Application submitted (unverified)'',
               already_applied = False, eligible = True, title = t\<rparr>)" .
next
  assume \<open>ensure_list_view D lt w = (Inr u, w1) \<and>
    page_query_selector_all D ''app-lottery-grid-card'' w1 = (Inr cards, w2) \<and>
    card_index < int (length cards) \<and>
    py_index cards card_index = Inr c \<and>
    workflow_title D c w2 = (Inr ttl, w3) \<and>
    card_applied D c w3 = (Inr False, w4) \<and>
    el_hover D c w4 = (Inr u1, w5) \<and>
    el_query_selector D c ''button:has-text("View Details")'' (sleep D 500 500 w5) =
      (Inr None, w6)\<close>
  then show "apply_to_lottery_by_click D b card_index lt w =
      (Inr \<lparr>success = False, message = ''Could not find View Details button'',
         already_applied = False, eligible = True, title = ttl\<rparr>, w6)"
    by (elim conjE) (rule no_view_details)
next
  assume "apply_to_lottery_by_click D b card_index lt w =
      submit_application D lt (initial_result\<lparr>title := ttl\<rparr>) v \<and>
    find_apply_btn D v = (Inr None, v1)"
  then show "apply_to_lottery_by_click D b card_index lt w =
      (Inr \<lparr>success = False, message = ''Could not find Apply Now button'',
         already_applied = False, eligible = True, title = ttl\<rparr>, v1)"
    by (simp add: no_apply_now)
next
  assume h: \<open>apply_to_lottery_by_click D b card_index lt w =
      submit_application D lt (initial_result\<lparr>title := ttl\<rparr>) v \<and>
    find_apply_btn D v = (Inr (Some a), v1) \<and>
    el_click D a v1 = (Inr u2, v2) \<and>
    confirm_dialog D (sleep D 2000 2000 v2) = (Inr u3, v3) \<and>
    page_query_selector D ''button.btn-grey-90:has-text("Applied")'' v3 = (Inr None, v4) \<and>
    (py_in ''login'' (py_lower (page_url D v4)) \<or>
     py_in ''id4/account'' (py_lower (page_url D v4))) \<and>
    return_to_list D lt v4 = (Inr u4, v5)\<close>
  then have "submit_application D lt (initial_result\<lparr>title := ttl\<rparr>) v =
      (Inr \<lparr>success = False, message = ''Redirected to login - not logged in'',
         already_applied = False, eligible = True, title = ttl\<rparr>, v5)"
    by (elim conjE) (rule redirected)
  with h show "apply_to_lottery_by_click D b card_index lt w =
      (Inr \<lparr>success = False, message = ''Redirected to login - not logged in'',
         already_applied = False, eligible = True, title = ttl\<rparr>, v5)"
    by simp
qed

theorem outcome_reasons_witness:
  \<open>apply_to_lottery_by_click (detail_driver ''Eligible Income: $32,195 - $226,800'')
     (applicant 60000) 0 ''sale'' False =
     (Inr \<lparr>success = True, message = ''Successfully applied!'', already_applied = False,
        eligible = True, title = ''Tower A''\<rparr>, True) \<and>
   reasons \<lparr>success = True, message = ''Successfully applied!'', already_applied = False,
        eligible = True, title = ''Tower A''\<rparr> \<le> 1 \<and>
   message \<lparr>success = True, message = ''Successfully applied!'', already_applied = False,
        eligible = True, title = ''Tower A''\<rparr> \<noteq> [] \<and>
   ensure_list_view (card_driver None (Some ''Tower A'')) ''sale'' () = (Inr (), ()) \<and>
   page_query_selector_all (card_driver None (Some ''Tower A'')) ''app-lottery-grid-card'' () =
     (Inr [0], ()) \<and>
   0 < int (length [0 :: nat]) \<and>
   py_index [0 :: nat] 0 = Inr 0 \<and>
   workflow_title (card_driver None (Some ''Tower A'')) 0 () = (Inr ''Tower A'', ()) \<and>
   card_applied (card_driver None (Some ''Tower A'')) 0 () = (Inr False, ()) \<and>
   el_hover (card_driver None (Some ''Tower A'')) 0 () = (Inr (), ()) \<and>
   el_query_selector (card_driver None (Some ''Tower A'')) 0 ''button:has-text("View Details")''
     (sleep (card_driver None (Some ''Tower A'')) 500 500 ()) = (Inr None, ()) \<and>
   apply_to_lottery_by_click (card_driver None (Some ''Tower A'')) (applicant 60000) 0 ''sale'' () =
     (Inr \<lparr>success = False, message = ''Could not find View Details button'',
        already_applied = False, eligible = True, title = ''Tower A''\<rparr>, ()) \<and>
   apply_to_lottery_by_click no_apply_driver (applicant 60000) 0 ''sale'' False =
     submit_application no_apply_driver ''sale'' (initial_result\<lparr>title := ''Tower A''\<rparr>) False \<and>
   find_apply_btn no_apply_driver False = (Inr None, False) \<and>
   apply_to_lottery_by_click no_apply_driver (applicant 60000) 0 ''sale'' False =
     (Inr \<lparr>success = False, message = ''Could not find Apply Now button'',
        already_applied = False, eligible = True, title = ''Tower A''\<rparr>, False) \<and>
   apply_to_lottery_by_click logged_out_driver (applicant 60000) 0 ''sale'' False =
     submit_application logged_out_driver ''sale'' (initial_result\<lparr>title := ''Tower A''\<rparr>) False \<and>
   find_apply_btn logged_out_driver False = (Inr (Some 4), False) \<and>
   el_click logged_out_driver 4 False = (Inr (), True) \<and>
   confirm_dialog logged_out_driver (sleep logged_out_driver 2000 2000 True) = (Inr (), True) \<and>
   page_query_selector logged_out_driver ''button.btn-grey-90:has-text("Applied")'' True =
     (Inr None, True) \<and>
   py_in ''login'' (py_lower (page_url logged_out_driver True)) \<and>
   return_to_list logged_out_driver ''sale'' True = (Inr (), True) \<and>
   apply_to_lottery_by_click logged_out_driver (applicant 60000) 0 ''sale'' False =
     (Inr \<lparr>success = False, message = ''Redirected to login - not logged in'',
        already_applied = False, eligible = True, title = ''Tower A''\<rparr>, True)\<close>
proof -
  have a: "apply_to_lottery_by_click (detail_driver ''Eligible Income: $32,195 - $226,800'')
     (applicant 60000) 0 ''sale'' False =
     (Inr \<lparr>success = True, message = ''Successfully applied!'', already_applied = False,
        eligible = True, title = ''Tower A''\<rparr>, True)"
    by code_simp
  note shape = outcome_reasons [THEN conjunct1, rule_format, OF a]
  have e: "ensure_list_view (card_driver None (Some ''Tower A'')) ''sale'' () = (Inr (), ())"
    by code_simp
  have q: "page_query_selector_all (card_driver None (Some ''Tower A'')) ''app-lottery-grid-card'' () =
     (Inr [0], ())"
    by code_simp
  have l: "0 < int (length [0 :: nat])"
    by simp
  have i: "py_index [0 :: nat] 0 = Inr 0"
    by code_simp
  have t: "workflow_title (card_driver None (Some ''Tower A'')) 0 () = (Inr ''Tower A'', ())"
    by code_simp
  have c: "card_applied (card_driver None (Some ''Tower A'')) 0 () = (Inr False, ())"
    by code_simp
  have h: "el_hover (card_driver None (Some ''Tower A'')) 0 () = (Inr (), ())"
    by code_simp
  have v: \<open>el_query_selector (card_driver None (Some ''Tower A'')) 0 ''button:has-text("View Details")''
     (sleep (card_driver None (Some ''Tower A'')) 500 500 ()) = (Inr None, ())\<close>
    by code_simp
  have view: "apply_to_lottery_by_click (card_driver None (Some ''Tower A'')) (applicant 60000) 0 ''sale'' () =
     (Inr \<lparr>success = False, message = ''Could not find View Details button'',
        already_applied = False, eligible = True, title = ''Tower A''\<rparr>, ())"
    using outcome_reasons [THEN conjunct2, THEN conjunct1, rule_format,
        OF conjI [OF e conjI [OF q conjI [OF l conjI [OF i conjI [OF t conjI [OF c conjI [OF h v]]]]]]],
        of "applicant 60000"] .
  have s1: "apply_to_lottery_by_click no_apply_driver (applicant 60000) 0 ''sale'' False =
     submit_application no_apply_driver ''sale'' (initial_result\<lparr>title := ''Tower A''\<rparr>) False"
    by code_simp
  have f1: "find_apply_btn no_apply_driver False = (Inr None, False)"
    by code_simp
  have none: "apply_to_lottery_by_click no_apply_driver (applicant 60000) 0 ''sale'' False =
     (Inr \<lparr>success = False, message = ''Could not find Apply Now button'',
        already_applied = False, eligible = True, title = ''Tower A''\<rparr>, False)"
    using outcome_reasons [THEN conjunct2, THEN conjunct2, THEN conjunct1, rule_format,
        OF conjI [OF s1 f1]] .
  have s2: "apply_to_lottery_by_click logged_out_driver (applicant 60000) 0 ''sale'' False =
     submit_application logged_out_driver ''sale'' (initial_result\<lparr>title := ''Tower A''\<rparr>) False"
    by code_simp
  have f2: "find_apply_btn logged_out_driver False = (Inr (Some 4), False)"
    by code_simp
  have k: "el_click logged_out_driver 4 False = (Inr (), True)"
    by code_simp
  have d: "confirm_dialog logged_out_driver (sleep logged_out_driver 2000 2000 True) = (Inr (), True)"
    by code_simp
  have p: \<open>page_query_selector logged_out_driver ''button.btn-grey-90:has-text("Applied")'' True =
     (Inr None, True)\<close>
    by code_simp
  have u: "py_in ''login'' (py_lower (page_url logged_out_driver True))"
    by code_simp
  have b: "return_to_list logged_out_driver ''sale'' True = (Inr (), True)"
    by code_simp
  have login: "apply_to_lottery_by_click logged_out_driver (applicant 60000) 0 ''sale'' False =
     (Inr \<lparr>success = False, message = ''Redirected to login - not logged in'',
        already_applied = False, eligible = True, title = ''Tower A''\<rparr>, True)"
    using outcome_reasons [THEN conjunct2, THEN conjunct2, THEN conjunct2, rule_format,
        OF conjI [OF s2 conjI [OF f2 conjI [OF k conjI [OF d conjI [OF p conjI [OF disjI1 [OF u] b]]]]]]] .
  from a shape e q l i t c h v view s1 f1 none s2 f2 k d p u b login show ?thesis
    by (intro conjI) simp_all
qed

theorem outcome_reasons_counterexample:
  "apply_to_lottery_by_click blank_driver (applicant 60000) 3 ''sale'' () =
     (Inr \<lparr>success = False, message = ''Card index 3 out of range'', already_applied = False,
        eligible = True, title = ''Unknown''\<rparr>, ()) \<and>
   reasons \<lparr>success = False, message = ''Card index 3 out of range'', already_applied = False,
        eligible = True, title = ''Unknown''\<rparr> = 0"
  by code_simp

text \<open>
  C7. When the list view is reached and the card index is not below the number of cards
  on it, \<open>apply_to_lottery_by_click\<close> returns the failure outcome whose message names the
  index, and does nothing after counting the cards: the browser is left in the state in
  which the cards were counted, so no detail view is opened.
\<close>

theorem apply_out_of_range:
  assumes "ensure_list_view D lt w = (Inr u, w1)"
    and "page_query_selector_all D ''app-lottery-grid-card'' w1 = (Inr cards, w2)"
    and "int (length cards) \<le> card_index"
  shows "apply_to_lottery_by_click D b card_index lt w =
    (Inr \<lparr>success = False, message = ''Card index '' @ py_str card_index @ '' out of range'',
       already_applied = False, eligible = True, title = ''Unknown''\<rparr>, w2)"
  using assms
  by (simp add: apply_to_lottery_by_click_def seq_Inr bnd_Inr ret_def initial_result_def)

theorem apply_out_of_range_witness:
  "ensure_list_view two_page_driver ''rental'' 2 = (Inr (), 2) \<and>
   page_query_selector_all two_page_driver ''app-lottery-grid-card'' 2 = (Inr [12, 13], 2) \<and>
   int (length [12 :: nat, 13]) \<le> 2 \<and>
   apply_to_lottery_by_click two_page_driver (applicant 50000) 2 ''rental'' 2 =
    (Inr \<lparr>success = False, message = ''Card index 2 out of range'',
       already_applied = False, eligible = True, title = ''Unknown''\<rparr>, 2)"
proof -
  have e: "ensure_list_view two_page_driver ''rental'' 2 = (Inr (), 2)"
    by code_simp
  have q: "page_query_selector_all two_page_driver ''app-lottery-grid-card'' 2 = (Inr [12, 13], 2)"
    by code_simp
  have l: "int (length [12 :: nat, 13]) \<le> 2"
    by simp
  have m: "''Card index '' @ py_str 2 @ '' out of range'' = ''Card index 2 out of range''"
    by code_simp
  from apply_out_of_range [OF e q l, of "applicant 50000"] e q l m show ?thesis
    by simp
qed

lemma apply_reaches_check:
  assumes "ensure_list_view D lt w = (Inr u, w1)"
    and "page_query_selector_all D ''app-lottery-grid-card'' w1 = (Inr cards, w2)"
    and "card_index < int (length cards)"
    and "py_index cards card_index = Inr c"
    and "workflow_title D c w2 = (Inr ttl, w3)"
    and "card_applied D c w3 = (Inr False, w4)"
    and "el_hover D c w4 = (Inr u1, w5)"
    and \<open>el_query_selector D c ''button:has-text("View Details")'' (sleep D 500 500 w5) =
      (Inr (Some v), w6)\<close>
    and "el_click D v w6 = (Inr u2, w7)"
    and "wait_detail_page D w7 = (Inr u3, w8)"
    and "detail_applied D w8 = (Inr False, w9)"
  shows "apply_to_lottery_by_click D b card_index lt w =
    check_eligibility D b lt (initial_result\<lparr>title := ttl\<rparr>) w9"
  using assms
  by (simp add: apply_to_lottery_by_click_def open_detail_def seq_def bnd_def lift_def
      time_sleep_def)

lemma check_not_eligible:
  assumes "page_text_content D ''body'' w = (Inr t, w1)"
    and "parse_income_range (text_or_empty t) = Inr (Some mn, Some mx)"
    and "annual_income b < mn \<or> mx < annual_income b"
  shows "check_eligibility D b lt (initial_result\<lparr>title := ttl\<rparr>) w =
    (Inr \<lparr>success = False,
       message = ''Not eligible: $'' @ fmt_commas (annual_income b) @ '' outside $'' @
         fmt_commas mn @ '' - $'' @ fmt_commas mx,
       already_applied = False, eligible = False, title = ttl\<rparr>, w1)"
  using assms
  by (auto simp: check_eligibility_def bnd_Inr lift_def ret_def initial_result_def)

lemma check_proceeds:
  assumes "page_text_content D ''body'' w = (Inr t, w1)"
    and "(parse_income_range (text_or_empty t) = Inr (Some mn, Some mx) \<and>
          mn \<le> annual_income b \<and> annual_income b \<le> mx) \<or>
         re_search income_pattern (text_or_empty t) = None"
  shows "check_eligibility D b lt result w = submit_application D lt result w1"
  using assms
  by (auto simp: check_eligibility_def bnd_Inr lift_def parse_income_range_def)

text \<open>
  C1. Let \<open>apply_to_lottery_by_click\<close> come to its eligibility check: the card is found, is
  not applied for, its detail page is opened and shows no applied mark, and the body text
  is read. When the income-range pattern gives a minimum and a maximum and the annual
  income is outside them, the outcome returned is not eligible, not successful and not
  already applied, and its message cites the income and both bounds. When the income is
  within the bounds, both included, or the pattern is not in the text, the workflow goes on
  to the submission with the outcome unchanged, and whatever it returns is eligible.
\<close>

theorem eligibility_check:
  assumes "ensure_list_view D lt w = (Inr u, w1)"
    and "page_query_selector_all D ''app-lottery-grid-card'' w1 = (Inr cards, w2)"
    and "card_index < int (length cards)"
    and "py_index cards card_index = Inr c"
    and "workflow_title D c w2 = (Inr ttl, w3)"
    and "card_applied D c w3 = (Inr False, w4)"
    and "el_hover D c w4 = (Inr u1, w5)"
    and \<open>el_query_selector D c ''button:has-text("View Details")'' (sleep D 500 500 w5) =
      (Inr (Some v), w6)\<close>
    and "el_click D v w6 = (Inr u2, w7)"
    and "wait_detail_page D w7 = (Inr u3, w8)"
    and "detail_applied D w8 = (Inr False, w9)"
    and "page_text_content D ''body'' w9 = (Inr t, w10)"
  shows "(parse_income_range (text_or_empty t) = Inr (Some mn, Some mx) \<and>
      (annual_income b < mn \<or> mx < annual_income b) \<longrightarrow>
      apply_to_lottery_by_click D b card_index lt w =
        (Inr \<lparr>success = False,
           message = ''Not eligible: $'' @ fmt_commas (annual_income b) @ '' outside $'' @
             fmt_commas mn @ '' - $'' @ fmt_commas mx,
           already_applied = False, eligible = False, title = ttl\<rparr>, w10)) \<and>
    ((parse_income_range (text_or_empty t) = Inr (Some mn, Some mx) \<and>
      mn \<le> annual_income b \<and> annual_income b \<le> mx) \<or>
     re_search income_pattern (text_or_empty t) = None \<longrightarrow>
      apply_to_lottery_by_click D b card_index lt w =
        submit_application D lt (initial_result\<lparr>title := ttl\<rparr>) w10 \<and>
      (\<forall>r w'. apply_to_lottery_by_click D b card_index lt w = (Inr r, w') \<longrightarrow> eligible r))"
proof -
  have reach: "apply_to_lottery_by_click D b card_index lt w =
      check_eligibility D b lt (initial_result\<lparr>title := ttl\<rparr>) w9"
    using assms(1-11) by (rule apply_reaches_check)
  have sub: "eligible r" if "submit_application D lt (initial_result\<lparr>title := ttl\<rparr>) w10 = (Inr r, w')"
    for r w'
    using submit_wf [OF that] by (simp add: initial_result_def)
  show ?thesis
    unfolding reach
    using check_not_eligible [OF assms(12), of mn mx b lt ttl]
      check_proceeds [OF assms(12), of mn mx b lt "initial_result\<lparr>title := ttl\<rparr>"] sub
    by auto
qed

theorem eligibility_check_witness:
  "parse_income_range ''Eligible Income: $32,195 - $226,800'' = Inr (Some 32195, Some 226800) \<and>
   apply_to_lottery_by_click (detail_driver ''Eligible Income: $32,195 - $226,800'')
     (applicant 20000) 0 ''sale'' False =
     (Inr \<lparr>success = False, message = ''Not eligible: $20,000 outside $32,195 - $226,800'',
        already_applied = False, eligible = False, title = ''Tower A''\<rparr>, False) \<and>
   apply_to_lottery_by_click (detail_driver ''Eligible Income: $32,195 - $226,800'')
     (applicant 60000) 0 ''sale'' False =
     submit_application (detail_driver ''Eligible Income: $32,195 - $226,800'') ''sale''
       (initial_result\<lparr>title := ''Tower A''\<rparr>) False \<and>
   re_search income_pattern ''Income limits apply'' = None \<and>
   apply_to_lottery_by_click (detail_driver ''Income limits apply'')
     (applicant 20000) 0 ''sale'' False =
     submit_application (detail_driver ''Income limits apply'') ''sale''
       (initial_result\<lparr>title := ''Tower A''\<rparr>) False"
proof -
  have l: "0 < int (length [0 :: nat])"
    by simp
  have i: "py_index [0 :: nat] 0 = Inr 0"
    by code_simp
  have e1: "ensure_list_view (detail_driver ''Eligible Income: $32,195 - $226,800'') ''sale'' False = (Inr (), False)"
    by code_simp
  have q1: "page_query_selector_all (detail_driver ''Eligible Income: $32,195 - $226,800'') ''app-lottery-grid-card'' False = (Inr [0], False)"
    by code_simp
  have t1: "workflow_title (detail_driver ''Eligible Income: $32,195 - $226,800'') 0 False = (Inr ''Tower A'', False)"
    by code_simp
  have a1: "card_applied (detail_driver ''Eligible Income: $32,195 - $226,800'') 0 False = (Inr False, False)"
    by code_simp
  have h1: "el_hover (detail_driver ''Eligible Income: $32,195 - $226,800'') 0 False = (Inr (), False)"
    by code_simp
  have v1: \<open>el_query_selector (detail_driver ''Eligible Income: $32,195 - $226,800'') 0 ''button:has-text("View Details")''
      (sleep (detail_driver ''Eligible Income: $32,195 - $226,800'') 500 500 False) = (Inr (Some 3), False)\<close>
    by code_simp
  have c1: "el_click (detail_driver ''Eligible Income: $32,195 - $226,800'') 3 False = (Inr (), False)"
    by code_simp
  have w1: "wait_detail_page (detail_driver ''Eligible Income: $32,195 - $226,800'') False = (Inr (), False)"
    by code_simp
  have d1: "detail_applied (detail_driver ''Eligible Income: $32,195 - $226,800'') False = (Inr False, False)"
    by code_simp
  have b1: "page_text_content (detail_driver ''Eligible Income: $32,195 - $226,800'') ''body'' False = (Inr (Some ''Eligible Income: $32,195 - $226,800''), False)"
    by code_simp
  have e2: "ensure_list_view (detail_driver ''Income limits apply'') ''sale'' False = (Inr (), False)"
    by code_simp
  have q2: "page_query_selector_all (detail_driver ''Income limits apply'') ''app-lottery-grid-card'' False = (Inr [0], False)"
    by code_simp
  have t2: "workflow_title (detail_driver ''Income limits apply'') 0 False = (Inr ''Tower A'', False)"
    by code_simp
  have a2: "card_applied (detail_driver ''Income limits apply'') 0 False = (Inr False, False)"
    by code_simp
  have h2: "el_hover (detail_driver ''Income limits apply'') 0 False = (Inr (), False)"
    by code_simp
  have v2: \<open>el_query_selector (detail_driver ''Income limits apply'') 0 ''button:has-text("View Details")''
      (sleep (detail_driver ''Income limits apply'') 500 500 False) = (Inr (Some 3), False)\<close>
    by code_simp
  have c2: "el_click (detail_driver ''Income limits apply'') 3 False = (Inr (), False)"
    by code_simp
  have w2: "wait_detail_page (detail_driver ''Income limits apply'') False = (Inr (), False)"
    by code_simp
  have d2: "detail_applied (detail_driver ''Income limits apply'') False = (Inr False, False)"
    by code_simp
  have b2: "page_text_content (detail_driver ''Income limits apply'') ''body'' False = (Inr (Some ''Income limits apply''), False)"
    by code_simp
  have p1: "parse_income_range (text_or_empty (Some ''Eligible Income: $32,195 - $226,800'')) =
      Inr (Some 32195, Some 226800)"
    by code_simp
  have p2: "re_search income_pattern (text_or_empty (Some ''Income limits apply'')) = None"
    by code_simp
  have m: "''Not eligible: $'' @ fmt_commas (annual_income (applicant 20000)) @ '' outside $'' @
      fmt_commas 32195 @ '' - $'' @ fmt_commas 226800 =
      ''Not eligible: $20,000 outside $32,195 - $226,800''"
    by code_simp
  have lo: "annual_income (applicant 20000) < 32195"
    by (simp add: applicant_def)
  have mid: "32195 \<le> annual_income (applicant 60000) \<and> annual_income (applicant 60000) \<le> 226800"
    by (simp add: applicant_def)
  note low = eligibility_check [OF e1 q1 l i t1 a1 h1 v1 c1 w1 d1 b1,
      of 32195 226800 "applicant 20000", THEN conjunct1, rule_format]
  note within = eligibility_check [OF e1 q1 l i t1 a1 h1 v1 c1 w1 d1 b1,
      of 32195 226800 "applicant 60000", THEN conjunct2, rule_format, THEN conjunct1]
  note absent = eligibility_check [OF e2 q2 l i t2 a2 h2 v2 c2 w2 d2 b2,
      of 0 0 "applicant 20000", THEN conjunct2, rule_format, THEN conjunct1]
  have r1: "apply_to_lottery_by_click (detail_driver ''Eligible Income: $32,195 - $226,800'')
     (applicant 20000) 0 ''sale'' False =
     (Inr \<lparr>success = False, message = ''Not eligible: $20,000 outside $32,195 - $226,800'',
        already_applied = False, eligible = False, title = ''Tower A''\<rparr>, False)"
    using low p1 lo m by simp
  have r2: "apply_to_lottery_by_click (detail_driver ''Eligible Income: $32,195 - $226,800'')
     (applicant 60000) 0 ''sale'' False =
     submit_application (detail_driver ''Eligible Income: $32,195 - $226,800'') ''sale''
       (initial_result\<lparr>title := ''Tower A''\<rparr>) False"
    using within p1 mid by simp
  have r3: "apply_to_lottery_by_click (detail_driver ''Income limits apply'')
     (applicant 20000) 0 ''sale'' False =
     submit_application (detail_driver ''Income limits apply'') ''sale''
       (initial_result\<lparr>title := ''Tower A''\<rparr>) False"
    using absent p2 by simp
  from p1 p2 r1 r2 r3 show ?thesis
    by (simp add: text_or_empty_def)
qed

subsection \<open>The batch run\<close>








end
